theory Spec2Isabelle
  imports Complex_Main "HOL-Library.Log_Nat"
begin

section \<open>Python and numpy values\<close>

text \<open>
  Exceptions of the source are values. \<open>EmptyROI\<close> is the failure of the bounding-box
  extraction on a mask without a set voxel.
\<close>

datatype error = ValueError | IndexError | UnboundLocalError | EmptyROI

text \<open>
  A floating-point number is the real it stands for. \<open>np.round\<close> rounds half to even.
\<close>

definition np_round :: "real \<Rightarrow> int" where
  "np_round x =
     (let f = \<lfloor>x\<rfloor>; d = x - of_int f
      in if d < 1 / 2 then f else if 1 / 2 < d then f + 1 else if even f then f else f + 1)"

text \<open>
  The arithmetic of binary64, where a result decides an integer (the margin of
  \<open>compute_box\<close>): the exact result rounded to the nearest number of 53 significant bits,
  half to even, with the subnormal numbers below \<open>2^-1022\<close>. \<open>exponent x\<close> is
  \<open>floor (log2 |x|)\<close>. A result beyond the largest binary64 is \<open>inf\<close> in the code and stays
  a finite real here; the conversion to an integer below gives the same for both. The
  coordinates of the points and of the world limits are exact reals.
\<close>

definition pow2 :: "int \<Rightarrow> real" where
  "pow2 k = (if 0 \<le> k then 2 ^ nat k else 1 / 2 ^ nat (- k))"

definition exponent :: "real \<Rightarrow> int" where
  "exponent x =
     (if 1 \<le> \<bar>x\<bar> then bitlen \<lfloor>\<bar>x\<bar>\<rfloor> - 1 else - bitlen (\<lceil>1 / \<bar>x\<bar>\<rceil> - 1))"

definition binary64 :: "real \<Rightarrow> real" where
  "binary64 x =
     (if x = 0 then 0
      else (let ulp = pow2 (max (exponent x - 52) (- 1074))
            in of_int (np_round (x / ulp)) * ulp))"

text \<open>
  \<open>astype(int)\<close> of a float: the 64-bit integer of the value truncated towards zero. A
  value outside the range of int64 (and \<open>inf\<close>) gives \<open>-2^63\<close>, as the conversion of x86-64
  does.
\<close>

definition astype_int :: "real \<Rightarrow> int" where
  "astype_int x =
     (let t = (if 0 \<le> x then \<lfloor>x\<rfloor> else \<lceil>x\<rceil>)
      in if - (2 ^ 63) \<le> t \<and> t < 2 ^ 63 then t else - (2 ^ 63))"

subsection \<open>Strings\<close>

text \<open>\<open>s.find(sub)\<close>: the index of the first occurrence, \<open>-1\<close> when there is none.\<close>

fun str_find :: "string \<Rightarrow> string \<Rightarrow> int" where
  "str_find sub [] = (if sub = [] then 0 else - 1)"
| "str_find sub (c # cs) =
     (if take (length sub) (c # cs) = sub then 0
      else (let r = str_find sub cs in if r = - 1 then - 1 else r + 1))"

text \<open>\<open>sub in s\<close>\<close>

definition str_in :: "string \<Rightarrow> string \<Rightarrow> bool" where
  "str_in sub s = (str_find sub s \<noteq> - 1)"

definition is_digit :: "char \<Rightarrow> bool" where
  "is_digit c = (c \<in> set ''0123456789'')"

definition digits_value :: "string \<Rightarrow> int" where
  "digits_value ds = foldl (\<lambda>acc c. 10 * acc + (of_char c - 48)) 0 ds"

text \<open>
  The builtin \<open>float(s)\<close> on plain decimal literals: an optional sign, digits, an optional
  point, digits, with at least one digit; the value is the binary64 nearest to the
  literal. \<open>None\<close> is the \<open>ValueError\<close> of the builtin. The other notations the builtin
  reads (exponents, \<open>inf\<close>, \<open>nan\<close>, underscores, surrounding blanks) are outside this model.
\<close>

definition py_float :: "string \<Rightarrow> real option" where
  "py_float s =
     (let (sgn, body) =
            (case s of
               [] \<Rightarrow> (1, [])
             | c # r \<Rightarrow> if c = CHR ''-'' then (- 1, r) else if c = CHR ''+'' then (1, r) else (1, s));
          ip = takeWhile (\<lambda>c. c \<noteq> CHR ''.'') body;
          fp = drop 1 (dropWhile (\<lambda>c. c \<noteq> CHR ''.'') body)
      in if (ip = [] \<and> fp = []) \<or> \<not> list_all is_digit ip \<or> \<not> list_all is_digit fp then None
         else Some (binary64
                      (sgn * (of_int (digits_value ip) + of_int (digits_value fp) / 10 ^ length fp))))"

subsection \<open>Three-dimensional arrays\<close>

text \<open>
  An \<open>ndarray\<close> of three dimensions: its shape and its elements by index. Only the
  elements inside the shape are part of the array.
\<close>

record 'a ndarray3 =
  shape :: "nat \<times> nat \<times> nat"
  elems :: "nat \<Rightarrow> nat \<Rightarrow> nat \<Rightarrow> 'a"

type_synonym box = "(int \<times> int) \<times> (int \<times> int) \<times> (int \<times> int)"

text \<open>
  A bound of a slice \<open>a:b\<close> on an axis of length \<open>n\<close>: a negative bound counts from the
  end, and every bound is clipped to the axis. Slicing never raises.
\<close>

definition slice_bound :: "nat \<Rightarrow> int \<Rightarrow> nat" where
  "slice_bound n a = (if a < 0 then nat (max 0 (a + int n)) else min (nat a) n)"

text \<open>The first index and the length of \<open>a:b\<close> on an axis of length \<open>n\<close>.\<close>

definition py_slice :: "nat \<Rightarrow> int \<Rightarrow> int \<Rightarrow> nat \<times> nat" where
  "py_slice n a b = (slice_bound n a, slice_bound n b - slice_bound n a)"

text \<open>\<open>arr[b00:b01 + 1, b10:b11 + 1, b20:b21 + 1]\<close>\<close>

definition crop :: "'a ndarray3 \<Rightarrow> box \<Rightarrow> 'a ndarray3" where
  "crop arr box_bound =
     (case shape arr of (n0, n1, n2) \<Rightarrow>
      case box_bound of ((b00, b01), (b10, b11), (b20, b21)) \<Rightarrow>
        (let (s0, l0) = py_slice n0 b00 (b01 + 1);
             (s1, l1) = py_slice n1 b10 (b11 + 1);
             (s2, l2) = py_slice n2 b20 (b21 + 1)
         in \<lparr>shape = (l0, l1, l2), elems = (\<lambda>i j k. elems arr (s0 + i) (s1 + j) (s2 + k))\<rparr>))"

section \<open>The spatial reference\<close>

record imref3d =
  ImageSize :: "int \<times> int \<times> int"
  PixelExtentInWorldX :: real
  PixelExtentInWorldY :: real
  PixelExtentInWorldZ :: real
  XWorldLimits :: "real \<times> real"
  YWorldLimits :: "real \<times> real"
  ZWorldLimits :: "real \<times> real"

text \<open>
  Modelled from the spec: the constructor \<open>imref3d(ImageSize, resX, resY, resZ)\<close> of
  \<open>utils/imref.py\<close> is missing. The spec fixes the spacing, the invariant
  \<open>max - min = imageSize[axis] * pixelExtent[axis]\<close> of the world limits; the default
  lower limit, which the spec leaves open, is taken as half a voxel. \<open>compute_box\<close> shifts
  the limits of a new reference at once, so the default lower limit cancels there.
\<close>

definition imref3d_init :: "int \<times> int \<times> int \<Rightarrow> real \<Rightarrow> real \<Rightarrow> real \<Rightarrow> imref3d" where
  "imref3d_init size_image res_x res_y res_z =
     (case size_image of (n0, n1, n2) \<Rightarrow>
        \<lparr>ImageSize = size_image,
         PixelExtentInWorldX = res_x, PixelExtentInWorldY = res_y, PixelExtentInWorldZ = res_z,
         XWorldLimits = (res_x / 2, res_x / 2 + of_int n0 * res_x),
         YWorldLimits = (res_y / 2, res_y / 2 + of_int n1 * res_y),
         ZWorldLimits = (res_z / 2, res_z / 2 + of_int n2 * res_z)\<rparr>)"

text \<open>
  Modelled from the spec: \<open>intrinsicToWorld\<close> of \<open>utils/imref.py\<close> is missing. The spec
  gives the affine map \<open>x = worldLimits.X.min + (i - 0.5) * pixelExtentX\<close> for voxels
  numbered from 1, and asks the numbering of the box to be that of the cropper. The code
  numbers the voxels from 0: \<open>compute_box\<close> passes the indices it slices with, and
  \<open>process_dicom_scan_files\<close> puts the lower world limit half a voxel below the position
  of the voxel 0. On these indices the map is \<open>x = min + (i + 0.5) * pixelExtentX\<close>: the
  centre of the voxel 0 is half a voxel above the lower world limit.
\<close>

definition intrinsicToWorld :: "imref3d \<Rightarrow> real \<Rightarrow> real \<Rightarrow> real \<Rightarrow> real \<times> real \<times> real" where
  "intrinsicToWorld R xIntrinsic yIntrinsic zIntrinsic =
     (fst (XWorldLimits R) + (xIntrinsic + 1 / 2) * PixelExtentInWorldX R,
      fst (YWorldLimits R) + (yIntrinsic + 1 / 2) * PixelExtentInWorldY R,
      fst (ZWorldLimits R) + (zIntrinsic + 1 / 2) * PixelExtentInWorldZ R)"

text \<open>
  Modelled from the spec: \<open>worldToIntrinsic\<close> of \<open>utils/imref.py\<close> is missing. It is the
  inverse of \<open>intrinsicToWorld\<close>, without rounding, on the indices from 0 that
  \<open>get_polygon_mask\<close> uses as indices of the mask:
  \<open>i = (x - worldLimits.X.min) / pixelExtentX - 0.5\<close>.
\<close>

definition worldToIntrinsic :: "imref3d \<Rightarrow> real \<Rightarrow> real \<Rightarrow> real \<Rightarrow> real \<times> real \<times> real" where
  "worldToIntrinsic R xWorld yWorld zWorld =
     ((xWorld - fst (XWorldLimits R)) / PixelExtentInWorldX R - 1 / 2,
      (yWorld - fst (YWorldLimits R)) / PixelExtentInWorldY R - 1 / 2,
      (zWorld - fst (ZWorldLimits R)) / PixelExtentInWorldZ R - 1 / 2)"

section \<open>compute\_box\<close>

text \<open>
  Modelled from the spec: \<open>compute_bounding_box\<close> of \<open>processing/compute_bounding_box.py\<close>
  is missing. The spec gives the inclusive range of the indices of the set voxels on each
  axis, and a failure on a mask without a set voxel. The indices are those of the array,
  from zero, as \<open>compute_box\<close> slices with them.
\<close>

definition compute_bounding_box :: "bool ndarray3 \<Rightarrow> error + box" where
  "compute_bounding_box msk =
     (case shape msk of (n0, n1, n2) \<Rightarrow>
        (let iv = filter (\<lambda>i. list_ex (\<lambda>j. list_ex (\<lambda>k. elems msk i j k) [0..<n2]) [0..<n1]) [0..<n0];
             jv = filter (\<lambda>j. list_ex (\<lambda>i. list_ex (\<lambda>k. elems msk i j k) [0..<n2]) [0..<n0]) [0..<n1];
             kv = filter (\<lambda>k. list_ex (\<lambda>i. list_ex (\<lambda>j. elems msk i j k) [0..<n1]) [0..<n0]) [0..<n2]
         in if iv = [] then Inl EmptyROI
            else Inr ((int (hd iv), int (last iv)),
                      (int (hd jv), int (last jv)),
                      (int (hd kv), int (last kv)))))"

text \<open>\<open>np.diff(box_bound, axis=1) + 1\<close>\<close>

definition box_size :: "box \<Rightarrow> int \<times> int \<times> int" where
  "box_size box_bound =
     (case box_bound of ((b00, b01), (b10, b11), (b20, b21)) \<Rightarrow>
        (b01 - b00 + 1, b11 - b10 + 1, b21 - b20 + 1))"

text \<open>
  Line 59 to 62 on one axis of extent \<open>z\<close>: \<open>new_box = size_box * factor\<close>, then
  \<open>np.round((new_box - size_box) / 2.0).astype(int)\<close>, every operation rounded to binary64.
\<close>

definition factor_margin :: "int \<Rightarrow> real \<Rightarrow> int" where
  "factor_margin z factor =
     (let size_box = binary64 (of_int z);
          new_box = binary64 (size_box * factor)
      in astype_int (of_int (np_round (binary64 (binary64 (new_box - size_box) / 2)))))"

text \<open>
  Lines 53 to 62: the margin the string asks for. A number after \<open>box\<close> is the number of
  voxels to add; a number before \<open>box\<close> is the factor the size is multiplied by.
\<close>

definition requested_margin :: "string \<Rightarrow> box \<Rightarrow> error + int \<times> int \<times> int" where
  "requested_margin box_string box_bound =
     (let ind_box = str_find ''box'' box_string
      in if ind_box = 0 then
           (case py_float (drop (nat (ind_box + 3)) box_string) of
              None \<Rightarrow> Inl ValueError
            | Some n_v \<Rightarrow> Inr (astype_int n_v, astype_int n_v, astype_int n_v))
         else
           (case py_float (take (nat ind_box) box_string) of
              None \<Rightarrow> Inl ValueError
            | Some factor \<Rightarrow>
                (case box_size box_bound of (z0, z1, z2) \<Rightarrow>
                   Inr (factor_margin z0 factor, factor_margin z1 factor,
                        factor_margin z2 factor))))"

text \<open>Lines 67 to 80: the number of the six bounds the expanded box keeps.\<close>

definition check :: "box \<Rightarrow> nat \<times> nat \<times> nat \<Rightarrow> int \<times> int \<times> int \<Rightarrow> nat" where
  "check box_bound vol_shape n_v =
     (case box_bound of ((b00, b01), (b10, b11), (b20, b21)) \<Rightarrow>
      case vol_shape of (s0, s1, s2) \<Rightarrow>
      case n_v of (n0, n1, n2) \<Rightarrow>
        (let check1 = of_bool (0 < b00 - n0 + 1) + of_bool (0 < b10 - n1 + 1)
                      + of_bool (0 < b20 - n2 + 1);
             check2 = of_bool (b01 + n0 + 1 \<le> int s0);
             check3 = of_bool (b11 + n1 + 1 \<le> int s1);
             check4 = of_bool (b21 + n2 + 1 \<le> int s2)
         in check1 + check2 + check3 + check4))"

text \<open>\<open>np.floor(n_v / 2.0)\<close>\<close>

definition halve :: "int \<times> int \<times> int \<Rightarrow> int \<times> int \<times> int" where
  "halve n_v = (case n_v of (n0, n1, n2) \<Rightarrow> (n0 div 2, n1 div 2, n2 div 2))"

definition sum3 :: "int \<times> int \<times> int \<Rightarrow> int" where
  "sum3 n_v = (case n_v of (n0, n1, n2) \<Rightarrow> n0 + n1 + n2)"

text \<open>
  Lines 64 to 88: the loop that halves the margin until the expanded box fits. The result
  is the margin the loop leaves; \<open>None\<close> is a loop that never ends. The bounds and the
  margins are integers without a limit here; the int64 and binary64 of the code hold
  them exactly below \<open>2^53\<close>.
\<close>

partial_function (option) shrink_loop ::
  "box \<Rightarrow> nat \<times> nat \<times> nat \<Rightarrow> int \<times> int \<times> int \<Rightarrow> (int \<times> int \<times> int) option" where
  "shrink_loop box_bound vol_shape n_v =
     (if check box_bound vol_shape n_v = 6 then Some n_v
      else if sum3 (halve n_v) = 0 then Some (0, 0, 0)
      else shrink_loop box_bound vol_shape (halve n_v))"

declare shrink_loop.simps [code]

text \<open>Lines 93 to 100: the box with the margin added on both sides of every axis.\<close>

definition expand_box :: "box \<Rightarrow> int \<times> int \<times> int \<Rightarrow> box" where
  "expand_box box_bound n_v =
     (case box_bound of ((b00, b01), (b10, b11), (b20, b21)) \<Rightarrow>
      case n_v of (n0, n1, n2) \<Rightarrow>
        ((b00 - n0, b01 + n0), (b10 - n1, b11 + n1), (b20 - n2, b21 + n2)))"

text \<open>\<open>limits - c\<close> on the pair of limits\<close>

definition shift_limits :: "real \<times> real \<Rightarrow> real \<Rightarrow> real \<times> real" where
  "shift_limits limits c = (fst limits - c, snd limits - c)"

text \<open>Lines 109 to 132: the reference of the cropped box.\<close>

definition new_reference :: "imref3d \<Rightarrow> box \<Rightarrow> imref3d" where
  "new_reference spatial_ref box_bound =
     (case box_bound of ((b00, b01), (b10, b11), (b20, b21)) \<Rightarrow>
        (let res0 = PixelExtentInWorldX spatial_ref;
             res1 = PixelExtentInWorldY spatial_ref;
             res2 = PixelExtentInWorldZ spatial_ref;
             size_box = box_size box_bound;
             (x_limit, y_limit, z_limit) =
                intrinsicToWorld spatial_ref (of_int b00) (of_int b10) (of_int b20);
             new_spatial_ref = imref3d_init size_box res0 res1 res2
         in new_spatial_ref
              \<lparr>XWorldLimits := shift_limits (XWorldLimits new_spatial_ref)
                                 (fst (XWorldLimits new_spatial_ref) - (x_limit - res0 / 2)),
               YWorldLimits := shift_limits (YWorldLimits new_spatial_ref)
                                 (fst (YWorldLimits new_spatial_ref) - (y_limit - res1 / 2)),
               ZWorldLimits := shift_limits (ZWorldLimits new_spatial_ref)
                                 (fst (ZWorldLimits new_spatial_ref) - (z_limit - res2 / 2))\<rparr>))"

text \<open>Lines 93 to 132, once the margin is known.\<close>

definition crop_to_box ::
  "'a ndarray3 \<Rightarrow> bool ndarray3 \<Rightarrow> imref3d \<Rightarrow> box \<Rightarrow> int \<times> int \<times> int
     \<Rightarrow> 'a ndarray3 \<times> bool ndarray3 \<times> imref3d" where
  "crop_to_box vol roi spatial_ref box_bound n_v =
     (let box_bound = expand_box box_bound n_v
      in (crop vol box_bound, crop roi box_bound, new_reference spatial_ref box_bound))"

text \<open>
  The whole function. The outer \<open>option\<close> is \<open>None\<close> when the loop never ends; \<open>Inl\<close> is
  an exception. The last branch is the \<open>return\<close> that reads \<open>new_spatial_ref\<close> when no
  branch has assigned it.
\<close>

definition compute_box ::
  "'a ndarray3 \<Rightarrow> bool ndarray3 \<Rightarrow> imref3d \<Rightarrow> string
     \<Rightarrow> (error + 'a ndarray3 \<times> bool ndarray3 \<times> imref3d) option" where
  "compute_box vol roi spatial_ref box_string =
     (if str_in ''box'' box_string then
        (let comp = (box_string = ''box'')
         in case compute_bounding_box roi of
              Inl e \<Rightarrow> Some (Inl e)
            | Inr box_bound \<Rightarrow>
                if \<not> comp then
                  (case requested_margin box_string box_bound of
                     Inl e \<Rightarrow> Some (Inl e)
                   | Inr n_v \<Rightarrow>
                       (case shrink_loop box_bound (shape vol) n_v of
                          None \<Rightarrow> None
                        | Some n_v \<Rightarrow> Some (Inr (crop_to_box vol roi spatial_ref box_bound n_v))))
                else Some (Inr (crop_to_box vol roi spatial_ref box_bound (0, 0, 0))))
      else if str_in ''full'' box_string then Some (Inr (vol, roi, spatial_ref))
      else Some (Inl UnboundLocalError))"

section \<open>get\_polygon\_mask\<close>

subsection \<open>The helpers of utils\<close>

text \<open>
  Modelled from the spec: \<open>mode\<close> of \<open>utils/mode.py\<close> is missing. The spec gives the most
  frequent value of a finite sequence, the smallest such value on a tie. The distinct
  values are run through in ascending order and a later value replaces the best one only
  when it is strictly more frequent. \<open>None\<close> is the failure on an empty sequence.
\<close>

definition mode :: "'a::linorder list \<Rightarrow> 'a option" where
  "mode xs =
     (case sort (remdups xs) of
        [] \<Rightarrow> None
      | u # us \<Rightarrow>
          Some (foldl (\<lambda>best v. if count_list xs best < count_list xs v then v else best) u us))"

record 'a ndarray2 =
  shape2 :: "nat \<times> nat"
  elems2 :: "nat \<Rightarrow> nat \<Rightarrow> 'a"

text \<open>
  Modelled from the spec: \<open>inpolygon\<close> of \<open>utils/inpolygon.py\<close> is missing. The spec gives
  the even-odd rule on a ray cast towards +X, with the points on an edge inside, the last
  vertex joined to the first, and nothing inside a polygon of fewer than three distinct
  vertices.
\<close>

definition on_edge :: "real \<times> real \<Rightarrow> real \<times> real \<Rightarrow> real \<times> real \<Rightarrow> bool" where
  "on_edge p q r =
     (case p of (x1, y1) \<Rightarrow> case q of (x2, y2) \<Rightarrow> case r of (x, y) \<Rightarrow>
        (x2 - x1) * (y - y1) = (y2 - y1) * (x - x1)
        \<and> min x1 x2 \<le> x \<and> x \<le> max x1 x2 \<and> min y1 y2 \<le> y \<and> y \<le> max y1 y2)"

definition crosses :: "real \<times> real \<Rightarrow> real \<times> real \<Rightarrow> real \<times> real \<Rightarrow> bool" where
  "crosses p q r =
     (case p of (x1, y1) \<Rightarrow> case q of (x2, y2) \<Rightarrow> case r of (x, y) \<Rightarrow>
        (y < y1) \<noteq> (y < y2) \<and> x < x1 + (y - y1) * (x2 - x1) / (y2 - y1))"

definition point_in_polygon :: "real list \<Rightarrow> real list \<Rightarrow> real \<Rightarrow> real \<Rightarrow> bool" where
  "point_in_polygon x_v y_v x y =
     (let vs = zip x_v y_v; es = zip vs (rotate1 vs)
      in if length (remdups vs) < 3 then False
         else list_ex (\<lambda>(p, q). on_edge p q (x, y)) es
              \<or> odd (length (filter (\<lambda>(p, q). crosses p q (x, y)) es)))"

text \<open>
  Modelled from the spec: the spec fixes neither the shape of the answer of \<open>inpolygon\<close>
  nor the order of its indices. The answer is indexed \<open>[x, y]\<close>: on the grids of
  \<open>np.meshgrid(np.arange(n0), np.arange(n1))\<close> it has the shape \<open>(n0, n1)\<close> of the plane
  \<open>roi_mask[:, :, s]\<close> it is combined with, and its entry \<open>[x, y]\<close> answers for the point
  \<open>(x, y)\<close>.
\<close>

definition inpolygon ::
  "real ndarray2 \<Rightarrow> real ndarray2 \<Rightarrow> real list \<Rightarrow> real list \<Rightarrow> bool ndarray2" where
  "inpolygon x_q y_q x_v y_v =
     (case shape2 x_q of (rows, cols) \<Rightarrow>
        \<lparr>shape2 = (cols, rows),
         elems2 = (\<lambda>i j. point_in_polygon x_v y_v (elems2 x_q j i) (elems2 y_q j i))\<rparr>)"

subsection \<open>numpy operations of the function\<close>

text \<open>
  \<open>np.meshgrid(np.arange(n0), np.arange(n1))\<close> with the default indexing: both grids have
  \<open>n1\<close> rows and \<open>n0\<close> columns, the first holds the column number and the second the row
  number.
\<close>

definition meshgrid :: "nat \<Rightarrow> nat \<Rightarrow> real ndarray2 \<times> real ndarray2" where
  "meshgrid n0 n1 =
     (\<lparr>shape2 = (n1, n0), elems2 = (\<lambda>r c. real c)\<rparr>,
      \<lparr>shape2 = (n1, n0), elems2 = (\<lambda>r c. real r)\<rparr>)"

text \<open>\<open>np.zeros(s_z)\<close>; a negative dimension raises.\<close>

definition zeros :: "int \<times> int \<times> int \<Rightarrow> error + bool ndarray3" where
  "zeros s_z =
     (case s_z of (z0, z1, z2) \<Rightarrow>
        if z0 < 0 \<or> z1 < 0 \<or> z2 < 0 then Inl ValueError
        else Inr \<lparr>shape = (nat z0, nat z1, nat z2), elems = (\<lambda>i j k. False)\<rparr>)"

text \<open>
  An integer index on an axis of length \<open>n\<close>: a negative index counts from the end, an
  index outside \<open>[-n, n)\<close> raises.
\<close>

definition axis_index :: "nat \<Rightarrow> int \<Rightarrow> error + nat" where
  "axis_index n s =
     (if 0 \<le> s \<and> s < int n then Inr (nat s)
      else if - int n \<le> s \<and> s < 0 then Inr (nat (s + int n))
      else Inl IndexError)"

text \<open>\<open>roi_mask[:, :, s]\<close>, read\<close>

definition get_plane :: "'a ndarray3 \<Rightarrow> int \<Rightarrow> error + 'a ndarray2" where
  "get_plane arr s =
     (case shape arr of (n0, n1, n2) \<Rightarrow>
        (case axis_index n2 s of
           Inl e \<Rightarrow> Inl e
         | Inr k \<Rightarrow> Inr \<lparr>shape2 = (n0, n1), elems2 = (\<lambda>i j. elems arr i j k)\<rparr>))"

text \<open>Broadcasting: two lengths agree when they are equal or one of them is 1.\<close>

definition broadcast_dim :: "nat \<Rightarrow> nat \<Rightarrow> nat option" where
  "broadcast_dim m n = (if m = n then Some m else if m = 1 then Some n else if n = 1 then Some m else None)"

definition broadcast_index :: "nat \<Rightarrow> nat \<Rightarrow> nat" where
  "broadcast_index n i = (if n = 1 then 0 else i)"

text \<open>\<open>np.logical_or(A, B)\<close>; shapes that do not broadcast raise.\<close>

definition logical_or :: "bool ndarray2 \<Rightarrow> bool ndarray2 \<Rightarrow> error + bool ndarray2" where
  "logical_or A B =
     (case shape2 A of (ra, ca) \<Rightarrow> case shape2 B of (rb, cb) \<Rightarrow>
        (case (broadcast_dim ra rb, broadcast_dim ca cb) of
           (Some r, Some c) \<Rightarrow>
             Inr \<lparr>shape2 = (r, c),
                  elems2 = (\<lambda>i j. elems2 A (broadcast_index ra i) (broadcast_index ca j)
                                   \<or> elems2 B (broadcast_index rb i) (broadcast_index cb j))\<rparr>
         | _ \<Rightarrow> Inl ValueError))"

text \<open>
  \<open>roi_mask[:, :, s] = V\<close>, written: \<open>V\<close> must broadcast to the shape of the plane, or the
  assignment raises.
\<close>

definition set_plane :: "'a ndarray3 \<Rightarrow> int \<Rightarrow> 'a ndarray2 \<Rightarrow> error + 'a ndarray3" where
  "set_plane arr s V =
     (case shape arr of (n0, n1, n2) \<Rightarrow> case shape2 V of (r, c) \<Rightarrow>
        (case axis_index n2 s of
           Inl e \<Rightarrow> Inl e
         | Inr k \<Rightarrow>
             if (r = n0 \<or> r = 1) \<and> (c = n1 \<or> c = 1) then
               Inr (arr\<lparr>elems := (\<lambda>i j k'. if k' = k
                                            then elems2 V (broadcast_index r i) (broadcast_index c j)
                                            else elems arr i j k')\<rparr>)
             else Inl ValueError))"

text \<open>\<open>xs[ind]\<close> with a boolean \<open>ind\<close>: the entries where \<open>ind\<close> holds.\<close>

definition select :: "bool list \<Rightarrow> 'a list \<Rightarrow> 'a list" where
  "select ind xs = map snd (filter fst (zip ind xs))"

text \<open>\<open>points[:, c]\<close> of one row\<close>

definition column :: "nat \<Rightarrow> real \<times> real \<times> real \<Rightarrow> real" where
  "column c p = (case p of (x, y, z) \<Rightarrow> if c = 0 then x else if c = 1 then y else z)"

text \<open>\<open>roi_xyz[:, 3]\<close> of one row\<close>

definition contour_id :: "real \<times> real \<times> real \<times> real \<Rightarrow> real" where
  "contour_id row = (case row of (x, y, z, c) \<Rightarrow> c)"

subsection \<open>The function\<close>

text \<open>Lines 38 to 52: the columns \<open>a\<close>, \<open>b\<close> of the plane and \<open>c\<close> of the slice.\<close>

definition orientation_axes :: "string \<Rightarrow> error + nat \<times> nat \<times> nat" where
  "orientation_axes orientation =
     (if orientation = ''Axial'' then Inr (0, 1, 2)
      else if orientation = ''Sagittal'' then Inr (1, 2, 0)
      else if orientation = ''Coronal'' then Inr (0, 2, 1)
      else Inl ValueError)"

text \<open>Line 61: the rows of the contour \<open>c_c\<close>.\<close>

definition contour_ind :: "(real \<times> real \<times> real \<times> real) list \<Rightarrow> real \<Rightarrow> bool list" where
  "contour_ind roi_xyz c_c = map (\<lambda>row. contour_id row = c_c) roi_xyz"

text \<open>Line 65: the slice of the contour \<open>c_c\<close>, the mode of its rounded slice coordinates.\<close>

definition select_slice ::
  "(real \<times> real \<times> real \<times> real) list \<Rightarrow> int list \<Rightarrow> real \<Rightarrow> int option" where
  "select_slice roi_xyz K c_c = mode (select (contour_ind roi_xyz c_c) K)"

text \<open>Lines 61 to 68: the body of the loop, for the contour \<open>c_c\<close>.\<close>

definition contour_step ::
  "(real \<times> real \<times> real \<times> real) list \<Rightarrow> (real \<times> real \<times> real) list \<Rightarrow> int list
     \<Rightarrow> nat \<Rightarrow> nat \<Rightarrow> real ndarray2 \<Rightarrow> real ndarray2 \<Rightarrow> real \<Rightarrow> bool ndarray3
     \<Rightarrow> error + bool ndarray3" where
  "contour_step roi_xyz points K a b x_q y_q c_c roi_mask =
     (let ind = contour_ind roi_xyz c_c
      in case select_slice roi_xyz K c_c of
           None \<Rightarrow> Inl ValueError
         | Some s \<Rightarrow>
             (let inpoly = inpolygon x_q y_q (select ind (map (column a) points))
                                             (select ind (map (column b) points))
              in case get_plane roi_mask s of
                   Inl e \<Rightarrow> Inl e
                 | Inr plane \<Rightarrow>
                     (case logical_or plane inpoly of
                        Inl e \<Rightarrow> Inl e
                      | Inr V \<Rightarrow> set_plane roi_mask s V)))"

text \<open>A \<open>for\<close> loop whose body may raise.\<close>

fun for_each :: "('x \<Rightarrow> 's \<Rightarrow> error + 's) \<Rightarrow> 'x list \<Rightarrow> 's \<Rightarrow> error + 's" where
  "for_each body [] st = Inr st"
| "for_each body (x # xs) st =
     (case body x st of Inl e \<Rightarrow> Inl e | Inr st' \<Rightarrow> for_each body xs st')"

text \<open>The rows in intrinsic coordinates (lines 31 to 36).\<close>

definition intrinsic_points ::
  "imref3d \<Rightarrow> (real \<times> real \<times> real \<times> real) list \<Rightarrow> (real \<times> real \<times> real) list" where
  "intrinsic_points spatial_ref roi_xyz =
     map (\<lambda>row. case row of (x, y, z, c) \<Rightarrow> worldToIntrinsic spatial_ref x y z) roi_xyz"

text \<open>Line 54: \<open>K\<close>, the rounded coordinates of all rows along the column \<open>c\<close>.\<close>

definition rounded_slices ::
  "imref3d \<Rightarrow> (real \<times> real \<times> real \<times> real) list \<Rightarrow> nat \<Rightarrow> int list" where
  "rounded_slices spatial_ref roi_xyz c =
     map (\<lambda>p. np_round (column c p)) (intrinsic_points spatial_ref roi_xyz)"

text \<open>Line 55: \<open>np.unique(roi_xyz[:, 3])\<close>, the distinct contour numbers in ascending order.\<close>

definition closed_contours :: "(real \<times> real \<times> real \<times> real) list \<Rightarrow> real list" where
  "closed_contours roi_xyz = sort (remdups (map contour_id roi_xyz))"

definition get_polygon_mask ::
  "(real \<times> real \<times> real \<times> real) list \<Rightarrow> imref3d \<Rightarrow> string \<Rightarrow> error + bool ndarray3" where
  "get_polygon_mask roi_xyz spatial_ref orientation =
     (let s_z = ImageSize spatial_ref
      in case zeros s_z of
           Inl e \<Rightarrow> Inl e
         | Inr roi_mask \<Rightarrow>
             (let points = intrinsic_points spatial_ref roi_xyz
              in case orientation_axes orientation of
                   Inl e \<Rightarrow> Inl e
                 | Inr (a, b, c) \<Rightarrow>
                     (let K = rounded_slices spatial_ref roi_xyz c;
                          (x_q, y_q) = meshgrid (nat (fst s_z)) (nat (fst (snd s_z)))
                      in for_each (contour_step roi_xyz points K a b x_q y_q)
                           (closed_contours roi_xyz) roi_mask)))"

section \<open>Predicates of the statements\<close>

text \<open>Every bound of the box is an index of the volume: it lies in \<open>[0, shape[axis] - 1]\<close>.\<close>

definition in_range :: "box \<Rightarrow> nat \<times> nat \<times> nat \<Rightarrow> bool" where
  "in_range box_bound vol_shape =
     (case box_bound of ((b00, b01), (b10, b11), (b20, b21)) \<Rightarrow>
      case vol_shape of (s0, s1, s2) \<Rightarrow>
        0 \<le> b00 \<and> b00 \<le> int s0 - 1 \<and> 0 \<le> b01 \<and> b01 \<le> int s0 - 1
        \<and> 0 \<le> b10 \<and> b10 \<le> int s1 - 1 \<and> 0 \<le> b11 \<and> b11 \<le> int s1 - 1
        \<and> 0 \<le> b20 \<and> b20 \<le> int s2 - 1 \<and> 0 \<le> b21 \<and> b21 \<le> int s2 - 1)"

text \<open>
  The margins the loop is entered with on a tight box: the lower bound of the box is not
  above the upper one, and a negative margin (a factor below 1) does not shrink an axis
  beyond its own extent. Every margin \<open>N \<ge> 0\<close> is of this kind.
\<close>

definition admissible :: "box \<Rightarrow> int \<times> int \<times> int \<Rightarrow> bool" where
  "admissible box_bound n_v =
     (case box_bound of ((b00, b01), (b10, b11), (b20, b21)) \<Rightarrow>
      case n_v of (n0, n1, n2) \<Rightarrow>
        b00 \<le> b01 \<and> b10 \<le> b11 \<and> b20 \<le> b21
        \<and> b00 - b01 \<le> n0 \<and> b10 - b11 \<le> n1 \<and> b20 - b21 \<le> n2)"

text \<open>
  The loop stops after \<open>t\<close> halvings with the margin \<open>m\<close>: none of the margins halved
  fewer times passes the check or has a half of sum zero, and either the margin halved
  \<open>t\<close> times passes the check and is \<open>m\<close>, or its half has the sum zero and \<open>m\<close> is zero
  on every axis.
\<close>

definition halving_stops ::
  "box \<Rightarrow> nat \<times> nat \<times> nat \<Rightarrow> int \<times> int \<times> int \<Rightarrow> nat \<Rightarrow> int \<times> int \<times> int \<Rightarrow> bool" where
  "halving_stops box_bound vol_shape n_v t m =
     (list_all (\<lambda>s. check box_bound vol_shape ((halve ^^ s) n_v) \<noteq> 6
                     \<and> sum3 ((halve ^^ Suc s) n_v) \<noteq> 0) [0..<t]
      \<and> (if check box_bound vol_shape ((halve ^^ t) n_v) = 6 then m = (halve ^^ t) n_v
         else sum3 ((halve ^^ Suc t) n_v) = 0 \<and> m = (0, 0, 0)))"

text \<open>The measure of the loop: the sum of the positive margins.\<close>

definition pos_sum :: "int \<times> int \<times> int \<Rightarrow> nat" where
  "pos_sum n_v = (case n_v of (n0, n1, n2) \<Rightarrow> nat (max 0 n0) + nat (max 0 n1) + nat (max 0 n2))"

section \<open>Concrete inputs\<close>

text \<open>A volume of 6 x 6 x 6 voxels, a mask with the voxels (2,2,2) and (3,3,3) set.\<close>

definition cb_vol :: "nat ndarray3" where
  "cb_vol = \<lparr>shape = (6, 6, 6), elems = (\<lambda>i j k. 100 * i + 10 * j + k)\<rparr>"

definition cb_roi :: "bool ndarray3" where
  "cb_roi = \<lparr>shape = (6, 6, 6),
             elems = (\<lambda>i j k. (i = 2 \<and> j = 2 \<and> k = 2) \<or> (i = 3 \<and> j = 3 \<and> k = 3))\<rparr>"

definition cb_ref :: imref3d where
  "cb_ref = \<lparr>ImageSize = (6, 6, 6),
             PixelExtentInWorldX = 1, PixelExtentInWorldY = 1, PixelExtentInWorldZ = 2,
             XWorldLimits = (0, 6), YWorldLimits = (0, 6), ZWorldLimits = (10, 22)\<rparr>"

text \<open>A volume of 3 x 6 x 6 voxels, smaller than the mask along the first axis.\<close>

definition cb_vol3 :: "nat ndarray3" where
  "cb_vol3 = \<lparr>shape = (3, 6, 6), elems = (\<lambda>i j k. 100 * i + 10 * j + k)\<rparr>"

text \<open>
  A reference with unit spacing whose world coordinates are the intrinsic ones: the
  centre of the voxel 0 is at the world coordinate 0.
\<close>

definition unit_ref :: "int \<times> int \<times> int \<Rightarrow> imref3d" where
  "unit_ref s_z =
     (case s_z of (z0, z1, z2) \<Rightarrow>
        \<lparr>ImageSize = s_z,
         PixelExtentInWorldX = 1, PixelExtentInWorldY = 1, PixelExtentInWorldZ = 1,
         XWorldLimits = (- 1 / 2, - 1 / 2 + of_int z0),
         YWorldLimits = (- 1 / 2, - 1 / 2 + of_int z1),
         ZWorldLimits = (- 1 / 2, - 1 / 2 + of_int z2)\<rparr>)"

text \<open>A triangle around the point (0, 0) of the Y-Z plane, at X = 1.\<close>

definition sag_roi :: "(real \<times> real \<times> real \<times> real) list" where
  "sag_roi = [(1, - 1 / 2, - 1 / 2, 0), (1, 1 / 2, - 1 / 2, 0), (1, 0, 1 / 2, 0)]"

text \<open>A triangle around the point (0, 0) of the X-Y plane, at Z = -1.\<close>

definition neg_roi :: "(real \<times> real \<times> real \<times> real) list" where
  "neg_roi = [(- 1 / 2, - 1 / 2, - 1, 0), (1 / 2, - 1 / 2, - 1, 0), (0, 1 / 2, - 1, 0)]"

text \<open>A triangle around the point (1, 2) of the X-Y plane, at Z = 0.\<close>

definition tri_roi :: "(real \<times> real \<times> real \<times> real) list" where
  "tri_roi = [(1 / 2, 3 / 2, 0, 0), (3 / 2, 3 / 2, 0, 0), (1, 5 / 2, 0, 0)]"


section \<open>Properties of compute\_box\<close>

subsection \<open>The specification string\<close>

lemma str_in_box_full: "\<not> str_in ''box'' ''full''"
  by (simp add: str_in_def)

lemma str_in_full_full: "str_in ''full'' ''full''"
  by (simp add: str_in_def)

text \<open>
  C7: with the specification \<open>full\<close>, \<open>compute_box\<close> returns the volume, the mask and the
  reference it was given.
\<close>

theorem compute_box_full:
  "compute_box vol roi spatial_ref ''full'' = Some (Inr (vol, roi, spatial_ref))"
  by (simp add: compute_box_def str_in_box_full str_in_full_full)

theorem compute_box_full_witness:
  "compute_box cb_vol cb_roi cb_ref ''full'' = Some (Inr (cb_vol, cb_roi, cb_ref))"
  using compute_box_full [of cb_vol cb_roi cb_ref] by simp

text \<open>
  C9: a specification that contains neither \<open>box\<close> nor \<open>full\<close> makes \<open>compute_box\<close> fail at
  its \<open>return\<close>, on the unassigned \<open>new_spatial_ref\<close>; nothing is returned and no other
  error is raised.
\<close>

theorem compute_box_unbound:
  assumes "\<not> str_in ''box'' box_string" and "\<not> str_in ''full'' box_string"
  shows "compute_box vol roi spatial_ref box_string = Some (Inl UnboundLocalError)"
  using assms by (simp add: compute_box_def)

theorem compute_box_unbound_witness:
  "\<not> str_in ''box'' ''tight'' \<and> \<not> str_in ''full'' ''tight''
   \<and> compute_box cb_vol cb_roi cb_ref ''tight'' = Some (Inl UnboundLocalError)"
proof -
  have a: "\<not> str_in ''box'' ''tight''" by (simp add: str_in_def)
  have b: "\<not> str_in ''full'' ''tight''" by (simp add: str_in_def)
  from compute_box_unbound [OF a b, of cb_vol cb_roi cb_ref] a b show ?thesis by simp
qed

text \<open>A number that \<open>float\<close> reads holds no letter \<open>b\<close>, so \<open>box\<close> is found right after it.\<close>

lemma is_digit_b: "\<not> is_digit CHR ''b''"
  by (simp add: is_digit_def)

lemma body_no_b:
  assumes "list_all is_digit (takeWhile (\<lambda>c. c \<noteq> CHR ''.'') body)"
      and "list_all is_digit (drop (Suc 0) (dropWhile (\<lambda>c. c \<noteq> CHR ''.'') body))"
  shows "CHR ''b'' \<notin> set body"
proof
  assume b: "CHR ''b'' \<in> set body"
  let ?P = "\<lambda>c. c \<noteq> CHR ''.''"
  have "body = takeWhile ?P body @ dropWhile ?P body" by simp
  with b have "CHR ''b'' \<in> set (takeWhile ?P body) \<or> CHR ''b'' \<in> set (dropWhile ?P body)"
    by (metis Un_iff set_append)
  then show False
  proof
    assume "CHR ''b'' \<in> set (takeWhile ?P body)"
    with assms(1) is_digit_b show False by (auto simp: list_all_iff)
  next
    assume d: "CHR ''b'' \<in> set (dropWhile ?P body)"
    then obtain c cs where cs: "dropWhile ?P body = c # cs" by (cases "dropWhile ?P body") auto
    then have "\<not> ?P c" using hd_dropWhile [of ?P body] by auto
    then have "c = CHR ''.''" by simp
    with d cs have "CHR ''b'' \<in> set cs" by auto
    with assms(2) cs is_digit_b show False by (auto simp: list_all_iff)
  qed
qed

lemma py_float_no_b:
  assumes "py_float s = Some x"
  shows "CHR ''b'' \<notin> set s \<and> s \<noteq> []"
proof (cases s)
  case Nil
  with assms show ?thesis by (simp add: py_float_def)
next
  case (Cons c r)
  show ?thesis
  proof (cases "c = CHR ''-'' \<or> c = CHR ''+''")
    case True
    with assms Cons have "CHR ''b'' \<notin> set r"
      using body_no_b [of r] by (auto simp: py_float_def Let_def split: if_splits)
    with True Cons show ?thesis by auto
  next
    case False
    with assms Cons have "CHR ''b'' \<notin> set s"
      using body_no_b [of s] by (auto simp: py_float_def Let_def split: if_splits)
    with Cons show ?thesis by auto
  qed
qed

lemma str_find_box_after:
  "CHR ''b'' \<notin> set pre \<Longrightarrow> str_find ''box'' (pre @ ''box'' @ suf) = int (length pre)"
  by (induction pre) auto

lemma str_find_box_front: "str_find ''box'' (''box'' @ suf) = 0"
  by simp

lemma str_in_num_box:
  assumes "py_float num = Some x"
  shows "str_in ''box'' (num @ ''box'')" and "num @ ''box'' \<noteq> ''box''"
    and "str_find ''box'' (num @ ''box'') = int (length num)" and "0 < length num"
proof -
  from py_float_no_b [OF assms] have nb: "CHR ''b'' \<notin> set num" and ne: "num \<noteq> []" by auto
  from str_find_box_after [OF nb, of "[]"] show f: "str_find ''box'' (num @ ''box'') = int (length num)"
    by simp
  then show "str_in ''box'' (num @ ''box'')" by (simp add: str_in_def)
  from ne show "num @ ''box'' \<noteq> ''box''" by simp
  from ne show "0 < length num" by simp
qed

lemma str_in_box_num: "str_in ''box'' (''box'' @ num)"
  by (simp add: str_in_def)

lemma cb_bbox: "compute_bounding_box cb_roi = Inr ((2, 3), (2, 3), (2, 3))"
  by code_simp

lemma expand_box_zero: "expand_box bb (0, 0, 0) = bb"
  by (simp add: expand_box_def split: prod.splits)


lemma compute_box_number:
  assumes "compute_bounding_box roi = Inr box_bound" and "py_float num = Some x"
  shows "compute_box vol roi spatial_ref (num @ ''box'') =
           (case box_size box_bound of (z0, z1, z2) \<Rightarrow>
              case shrink_loop box_bound (shape vol)
                     (factor_margin z0 x, factor_margin z1 x, factor_margin z2 x) of
                None \<Rightarrow> None
              | Some n_v \<Rightarrow> Some (Inr (crop_to_box vol roi spatial_ref box_bound n_v)))
       \<and> compute_box vol roi spatial_ref (''box'' @ num) =
           (case shrink_loop box_bound (shape vol) (astype_int x, astype_int x, astype_int x) of
              None \<Rightarrow> None
            | Some n_v \<Rightarrow> Some (Inr (crop_to_box vol roi spatial_ref box_bound n_v)))"
proof
  obtain z0 z1 z2 where z: "box_size box_bound = (z0, z1, z2)" by (metis prod.exhaust)
  from str_in_num_box [OF assms(2)]
  have "requested_margin (num @ ''box'') box_bound =
          Inr (factor_margin z0 x, factor_margin z1 x, factor_margin z2 x)"
    by (simp add: requested_margin_def assms(2) z)
  with str_in_num_box [OF assms(2)] assms(1) z
  show "compute_box vol roi spatial_ref (num @ ''box'') =
           (case box_size box_bound of (z0, z1, z2) \<Rightarrow>
              case shrink_loop box_bound (shape vol)
                     (factor_margin z0 x, factor_margin z1 x, factor_margin z2 x) of
                None \<Rightarrow> None
              | Some n_v \<Rightarrow> Some (Inr (crop_to_box vol roi spatial_ref box_bound n_v)))"
    by (simp add: compute_box_def)
next
  from py_float_no_b [OF assms(2)] have ne: "''box'' @ num \<noteq> ''box''" by simp
  have "requested_margin (''box'' @ num) box_bound
          = Inr (astype_int x, astype_int x, astype_int x)"
    by (simp add: requested_margin_def assms(2))
  with ne assms(1) str_in_box_num [of num]
  show "compute_box vol roi spatial_ref (''box'' @ num) =
           (case shrink_loop box_bound (shape vol) (astype_int x, astype_int x, astype_int x) of
              None \<Rightarrow> None
            | Some n_v \<Rightarrow> Some (Inr (crop_to_box vol roi spatial_ref box_bound n_v)))"
    by (simp add: compute_box_def del: append.simps)
qed

text \<open>
  C3, as the code has it: a number before \<open>box\<close>, whole or not, is the factor the extent
  of every axis is multiplied by, and the margin the loop is entered with is
  \<open>round((size * factor - size) / 2)\<close> on each axis, computed in binary64; a number after
  \<open>box\<close> is the margin in voxels, truncated to an integer, the same on every axis.
\<close>

theorem box_string_number:
  assumes "compute_bounding_box roi = Inr box_bound" and "py_float num = Some x"
  shows "compute_box vol roi spatial_ref (num @ ''box'') =
           (case box_size box_bound of (z0, z1, z2) \<Rightarrow>
              case shrink_loop box_bound (shape vol)
                     (factor_margin z0 x, factor_margin z1 x, factor_margin z2 x) of
                None \<Rightarrow> None
              | Some n_v \<Rightarrow> Some (Inr (crop_to_box vol roi spatial_ref box_bound n_v)))
       \<and> compute_box vol roi spatial_ref (''box'' @ num) =
           (case shrink_loop box_bound (shape vol) (astype_int x, astype_int x, astype_int x) of
              None \<Rightarrow> None
            | Some n_v \<Rightarrow> Some (Inr (crop_to_box vol roi spatial_ref box_bound n_v)))"
  using assms by (rule compute_box_number)

lemma py_float_2: "py_float ''2'' = Some 2"
  by code_simp

lemma loop_cb_1: "shrink_loop ((2, 3), (2, 3), (2, 3)) (6, 6, 6) (1, 1, 1) = Some (1, 1, 1)"
  by code_simp

lemma loop_cb_2: "shrink_loop ((2, 3), (2, 3), (2, 3)) (6, 6, 6) (2, 2, 2) = Some (2, 2, 2)"
  by code_simp

lemma factor_cb: "factor_margin 2 2 = 1"
  by code_simp

lemma shape_cb_vol: "shape cb_vol = (6, 6, 6)"
  by (simp add: cb_vol_def)

lemma astype_int_2: "astype_int 2 = 2"
  by code_simp

theorem box_string_number_witness:
  "compute_bounding_box cb_roi = Inr ((2, 3), (2, 3), (2, 3)) \<and> py_float ''2'' = Some 2
   \<and> compute_box cb_vol cb_roi cb_ref ''2box''
       = Some (Inr (crop_to_box cb_vol cb_roi cb_ref ((2, 3), (2, 3), (2, 3)) (1, 1, 1)))
   \<and> compute_box cb_vol cb_roi cb_ref ''box2''
       = Some (Inr (crop_to_box cb_vol cb_roi cb_ref ((2, 3), (2, 3), (2, 3)) (2, 2, 2)))"
  using box_string_number [OF cb_bbox py_float_2, of cb_vol cb_ref]
  by (simp add: cb_bbox py_float_2 box_size_def shape_cb_vol factor_cb astype_int_2
        loop_cb_1 loop_cb_2)

text \<open>
  The factor is that of binary64: \<open>1.1box\<close> on an extent of 50 voxels gives the margin 3,
  since \<open>50 * 1.1\<close> is just above 55, and \<open>0.56box\<close> on an extent of 25 voxels gives -5.
\<close>

lemma factor_margin_binary64:
  "map_option (factor_margin 50) (py_float ''1.1'') = Some 3
   \<and> map_option (factor_margin 25) (py_float ''0.56'') = Some (- 5)"
  by code_simp


text \<open>
  The claim C3 fails on \<open>2box\<close>: the tight box of the mask is 2 voxels wide on every axis
  and lies in the middle of the 6 x 6 x 6 volume. The code returns arrays of 4 voxels on
  every axis (a margin of 1, the factor 2), where a margin of 2 voxels gives 6.
\<close>

lemma cb_2box:
  "compute_box cb_vol cb_roi cb_ref ''2box''
     = Some (Inr (crop_to_box cb_vol cb_roi cb_ref ((2, 3), (2, 3), (2, 3)) (1, 1, 1)))"
  using compute_box_number [OF cb_bbox py_float_2, of cb_vol cb_ref]
  by (simp add: box_size_def shape_cb_vol factor_cb loop_cb_1)

lemma cb_crop_shapes:
  "(case crop_to_box cb_vol cb_roi cb_ref ((2, 3), (2, 3), (2, 3)) (1, 1, 1) of
      (v, r, R) \<Rightarrow> (shape v, shape r)) = ((4, 4, 4), (4, 4, 4))
   \<and> (case crop_to_box cb_vol cb_roi cb_ref ((2, 3), (2, 3), (2, 3)) (2, 2, 2) of
        (v, r, R) \<Rightarrow> (shape v, shape r)) = ((6, 6, 6), (6, 6, 6))"
  by code_simp

theorem int_before_box_counterexample:
  "map_option (map_sum id (\<lambda>(v, r, R). (shape v, shape r)))
     (compute_box cb_vol cb_roi cb_ref ''2box'') = Some (Inr ((4, 4, 4), (4, 4, 4)))
   \<and> map_option (map_sum id (\<lambda>(v, r, R). (shape v, shape r)))
       (Some (Inr (crop_to_box cb_vol cb_roi cb_ref ((2, 3), (2, 3), (2, 3)) (2, 2, 2))
              :: error + nat ndarray3 \<times> bool ndarray3 \<times> imref3d))
       = Some (Inr ((6, 6, 6), (6, 6, 6)))"
  using cb_crop_shapes by (simp add: cb_2box)

subsection \<open>Extents that disagree\<close>

text \<open>
  C5, as the code has it: \<open>compute_box\<close> does not compare the extents of the volume and
  of the mask. With the specification \<open>box\<close> and a mask with a set voxel it returns, also
  when the extents disagree: each array is sliced on its own to the tight box of the
  mask, a slice being clipped to the extent of the array it cuts.
\<close>

theorem compute_box_unequal_extents:
  assumes "shape vol \<noteq> shape roi" and "compute_bounding_box roi = Inr box_bound"
  shows "compute_box vol roi spatial_ref ''box''
           = Some (Inr (crop vol box_bound, crop roi box_bound,
                        new_reference spatial_ref box_bound))"
  using assms(2) by (simp add: compute_box_def str_in_def crop_to_box_def expand_box_zero)

theorem compute_box_unequal_extents_witness:
  "shape cb_vol3 \<noteq> shape cb_roi \<and> compute_bounding_box cb_roi = Inr ((2, 3), (2, 3), (2, 3))
   \<and> compute_box cb_vol3 cb_roi cb_ref ''box''
       = Some (Inr (crop cb_vol3 ((2, 3), (2, 3), (2, 3)), crop cb_roi ((2, 3), (2, 3), (2, 3)),
                    new_reference cb_ref ((2, 3), (2, 3), (2, 3))))"
proof -
  have ne: "shape cb_vol3 \<noteq> shape cb_roi" by (simp add: cb_vol3_def cb_roi_def)
  from compute_box_unequal_extents [OF ne cb_bbox, of cb_ref] ne cb_bbox show ?thesis by simp
qed

text \<open>
  The claim C5 fails on a volume of 3 x 6 x 6 voxels with a mask of 6 x 6 x 6: the call
  returns, with a volume of 1 x 2 x 2 voxels next to a mask of 2 x 2 x 2.
\<close>

theorem shape_mismatch_counterexample:
  "shape cb_vol3 \<noteq> shape cb_roi
   \<and> map_option (map_sum id (\<lambda>(v, r, R). (shape v, shape r)))
       (compute_box cb_vol3 cb_roi cb_ref ''box'') = Some (Inr ((1, 2, 2), (2, 2, 2)))"
  by code_simp

subsection \<open>The loop that shrinks the margin\<close>

lemma check_6_iff:
  "check ((b00, b01), (b10, b11), (b20, b21)) (s0, s1, s2) (n0, n1, n2) = 6 \<longleftrightarrow>
     0 \<le> b00 - n0 \<and> 0 \<le> b10 - n1 \<and> 0 \<le> b20 - n2
     \<and> b01 + n0 < int s0 \<and> b11 + n1 < int s1 \<and> b21 + n2 < int s2"
  by (auto simp: check_def of_bool_def split: if_splits)

lemma half_le: "nat (max 0 (n div 2)) \<le> nat (max 0 (n::int))"
  by (simp add: max_def) linarith

lemma half_less: "0 < (n::int) \<Longrightarrow> nat (max 0 (n div 2)) < nat (max 0 n)"
  by (simp add: max_def)

lemma check_fails_pos:
  assumes "in_range bb shp" and "check bb shp n \<noteq> 6"
  shows "pos_sum (halve n) < pos_sum n"
proof -
  obtain b00 b01 b10 b11 b20 b21 where bb: "bb = ((b00, b01), (b10, b11), (b20, b21))"
    by (metis prod.exhaust)
  obtain s0 s1 s2 where shp: "shp = (s0, s1, s2)" by (metis prod.exhaust)
  obtain n0 n1 n2 where n: "n = (n0, n1, n2)" by (metis prod.exhaust)
  from assms have "0 < n0 \<or> 0 < n1 \<or> 0 < n2"
    unfolding bb shp n check_6_iff by (auto simp: in_range_def)
  then consider "0 < n0" | "0 < n1" | "0 < n2" by blast
  then have "nat (max 0 (n0 div 2)) + nat (max 0 (n1 div 2)) + nat (max 0 (n2 div 2))
      < nat (max 0 n0) + nat (max 0 n1) + nat (max 0 n2)"
  proof cases
    case 1
    from half_less [OF 1] half_le [of n1] half_le [of n2] show ?thesis by linarith
  next
    case 2
    from half_less [OF 2] half_le [of n0] half_le [of n2] show ?thesis by linarith
  next
    case 3
    from half_less [OF 3] half_le [of n0] half_le [of n1] show ?thesis by linarith
  qed
  then show ?thesis
    unfolding n by (simp add: pos_sum_def halve_def)
qed

lemma admissible_halve: "admissible bb n \<Longrightarrow> admissible bb (halve n)"
  by (auto simp: admissible_def halve_def split: prod.splits)

lemma in_range_expand:
  assumes "in_range bb shp" and "admissible bb n" and "check bb shp n = 6"
  shows "in_range (expand_box bb n) shp"
proof -
  obtain b00 b01 b10 b11 b20 b21 where bb: "bb = ((b00, b01), (b10, b11), (b20, b21))"
    by (metis prod.exhaust)
  obtain s0 s1 s2 where shp: "shp = (s0, s1, s2)" by (metis prod.exhaust)
  obtain n0 n1 n2 where n: "n = (n0, n1, n2)" by (metis prod.exhaust)
  from assms show ?thesis
    unfolding bb shp n check_6_iff by (auto simp: in_range_def admissible_def expand_box_def)
qed

lemma halve_funpow_Suc: "(halve ^^ Suc s) n = (halve ^^ s) (halve n)"
  by (simp add: funpow_swap1)

lemma admissible_funpow: "admissible bb n \<Longrightarrow> admissible bb ((halve ^^ t) n)"
  by (induction t) (simp_all add: admissible_halve)

text \<open>A margin halved \<open>t\<close> times is the margin divided by \<open>2 ^ t\<close>, rounded down.\<close>

lemma halve_funpow:
  "(halve ^^ t) (n0, n1, n2) = (n0 div 2 ^ t, n1 div 2 ^ t, n2 div 2 ^ t)"
proof (induction t)
  case 0
  show ?case by simp
next
  case (Suc t)
  have "\<And>a :: int. a div 2 ^ t div 2 = a div (2 ^ t * 2)"
    by (simp add: zdiv_zmult2_eq)
  with Suc show ?case by (simp add: halve_def mult.commute)
qed

lemma halving_stops_now:
  "check bb shp n = 6 \<or> sum3 (halve n) = 0
     \<Longrightarrow> halving_stops bb shp n 0 (if check bb shp n = 6 then n else (0, 0, 0))"
  by (auto simp: halving_stops_def)

lemma halving_stops_later:
  assumes "check bb shp n \<noteq> 6" and "sum3 (halve n) \<noteq> 0"
      and "halving_stops bb shp (halve n) t m"
  shows "halving_stops bb shp n (Suc t) m"
proof -
  have "list_all (\<lambda>s. check bb shp ((halve ^^ s) n) \<noteq> 6 \<and> sum3 ((halve ^^ Suc s) n) \<noteq> 0)
          [0..<Suc t]"
    unfolding list_all_iff
  proof
    fix s assume "s \<in> set [0..<Suc t]"
    then have s: "s < Suc t" by auto
    show "check bb shp ((halve ^^ s) n) \<noteq> 6 \<and> sum3 ((halve ^^ Suc s) n) \<noteq> 0"
    proof (cases s)
      case 0
      with assms(1,2) show ?thesis by simp
    next
      case (Suc r)
      with s have "r \<in> set [0..<t]" by simp
      with assms(3) have "check bb shp ((halve ^^ r) (halve n)) \<noteq> 6
          \<and> sum3 ((halve ^^ Suc r) (halve n)) \<noteq> 0"
        unfolding halving_stops_def list_all_iff by blast
      then show ?thesis unfolding Suc halve_funpow_Suc [symmetric] .
    qed
  qed
  moreover from assms(3)
  have "if check bb shp ((halve ^^ Suc t) n) = 6 then m = (halve ^^ Suc t) n
        else sum3 ((halve ^^ Suc (Suc t)) n) = 0 \<and> m = (0, 0, 0)"
    unfolding halving_stops_def halve_funpow_Suc [of "Suc t"] halve_funpow_Suc [of t]
    by simp
  ultimately show ?thesis unfolding halving_stops_def by simp
qed

lemma shrink_loop_halving:
  assumes "in_range box_bound vol_shape"
  shows "\<exists>t m. shrink_loop box_bound vol_shape n_v = Some m
               \<and> halving_stops box_bound vol_shape n_v t m
               \<and> (admissible box_bound n_v \<longrightarrow>
                    in_range (expand_box box_bound m) vol_shape)"
proof (induction "pos_sum n_v" arbitrary: n_v rule: less_induct)
  case less
  show ?case
  proof (cases "check box_bound vol_shape n_v = 6")
    case True
    then have "shrink_loop box_bound vol_shape n_v = Some n_v"
      by (subst shrink_loop.simps) simp
    moreover from True have "halving_stops box_bound vol_shape n_v 0 n_v"
      using halving_stops_now [of box_bound vol_shape n_v] by simp
    moreover from True assms
    have "admissible box_bound n_v \<longrightarrow> in_range (expand_box box_bound n_v) vol_shape"
      by (simp add: in_range_expand)
    ultimately show ?thesis by blast
  next
    case False
    show ?thesis
    proof (cases "sum3 (halve n_v) = 0")
      case True
      with False have "shrink_loop box_bound vol_shape n_v = Some (0, 0, 0)"
        by (subst shrink_loop.simps) simp
      moreover from True False have "halving_stops box_bound vol_shape n_v 0 (0, 0, 0)"
        using halving_stops_now [of box_bound vol_shape n_v] by simp
      moreover from assms have "in_range (expand_box box_bound (0, 0, 0)) vol_shape"
        by (simp add: expand_box_zero)
      ultimately show ?thesis by blast
    next
      case nz: False
      from False nz have step: "shrink_loop box_bound vol_shape n_v
          = shrink_loop box_bound vol_shape (halve n_v)"
        by (subst shrink_loop.simps) simp
      from assms False have "pos_sum (halve n_v) < pos_sum n_v"
        by (rule check_fails_pos)
      from less.hyps [OF this] obtain t m where
        m: "shrink_loop box_bound vol_shape (halve n_v) = Some m"
        and h: "halving_stops box_bound vol_shape (halve n_v) t m"
        and r: "admissible box_bound (halve n_v) \<longrightarrow>
                  in_range (expand_box box_bound m) vol_shape"
        by blast
      from step m have "shrink_loop box_bound vol_shape n_v = Some m" by simp
      moreover from False nz h have "halving_stops box_bound vol_shape n_v (Suc t) m"
        by (rule halving_stops_later)
      moreover from r
      have "admissible box_bound n_v \<longrightarrow> in_range (expand_box box_bound m) vol_shape"
        by (simp add: admissible_halve)
      ultimately show ?thesis by blast
    qed
  qed
qed






text \<open>
  The tight box of a mask is inside the mask and its bounds are in order, so a number
  \<open>N \<ge> 0\<close> after \<open>box\<close> gives a margin of this kind: \<open>compute_box\<close> returns on \<open>box<N>\<close> when
  the tight box is inside the volume, with a box inside the volume.
\<close>

lemma sorted_hd_le_last: "sorted xs \<Longrightarrow> xs \<noteq> [] \<Longrightarrow> hd xs \<le> last (xs :: nat list)"
  by (cases xs) auto

lemma filter_upt_bounds:
  assumes "filter P [0..<n] \<noteq> []"
  shows "hd (filter P [0..<n]) \<le> last (filter P [0..<n]) \<and> last (filter P [0..<n]) < n"
proof -
  have "sorted (filter P [0..<n])" by (simp add: sorted_wrt_filter)
  from sorted_hd_le_last [OF this assms] have 1: "hd (filter P [0..<n]) \<le> last (filter P [0..<n])" .
  from assms have "last (filter P [0..<n]) \<in> set (filter P [0..<n])" by (rule last_in_set)
  then have "last (filter P [0..<n]) < n" by simp
  with 1 show ?thesis by simp
qed

lemma bounding_box_in_mask:
  assumes "compute_bounding_box msk = Inr box_bound"
  shows "in_range box_bound (shape msk) \<and> admissible box_bound (0, 0, 0)"
proof -
  obtain n0 n1 n2 where sh: "shape msk = (n0, n1, n2)" by (metis prod.exhaust)
  let ?iv = "filter (\<lambda>i. list_ex (\<lambda>j. list_ex (\<lambda>k. elems msk i j k) [0..<n2]) [0..<n1]) [0..<n0]"
  let ?jv = "filter (\<lambda>j. list_ex (\<lambda>i. list_ex (\<lambda>k. elems msk i j k) [0..<n2]) [0..<n0]) [0..<n1]"
  let ?kv = "filter (\<lambda>k. list_ex (\<lambda>i. list_ex (\<lambda>j. elems msk i j k) [0..<n1]) [0..<n0]) [0..<n2]"
  from assms sh have iv: "?iv \<noteq> []"
    and bb: "box_bound = ((int (hd ?iv), int (last ?iv)), (int (hd ?jv), int (last ?jv)),
                          (int (hd ?kv), int (last ?kv)))"
    by (auto simp: compute_bounding_box_def Let_def split: if_splits)
  from iv obtain i where "i \<in> set ?iv" by (cases ?iv) auto
  then obtain j k where ijk: "i < n0" "j < n1" "k < n2" "elems msk i j k"
    by (auto simp: list_ex_iff)
  then have j: "j \<in> set ?jv" and k: "k \<in> set ?kv" by (fastforce simp: list_ex_iff)+
  from j have jv: "?jv \<noteq> []" by (metis empty_iff empty_set)
  from k have kv: "?kv \<noteq> []" by (metis empty_iff empty_set)
  from filter_upt_bounds [OF iv] filter_upt_bounds [OF jv] filter_upt_bounds [OF kv]
  show ?thesis unfolding bb sh by (simp add: in_range_def admissible_def)
qed

lemma astype_int_nonneg: "0 \<le> x \<Longrightarrow> x < 2 ^ 63 \<Longrightarrow> 0 \<le> astype_int x"
proof -
  assume x: "0 \<le> x" "x < 2 ^ 63"
  then have "\<lfloor>x\<rfloor> < 2 ^ 63" by (simp add: floor_less_iff)
  moreover from x have "0 \<le> \<lfloor>x\<rfloor>" by simp
  ultimately show ?thesis using x by (simp add: astype_int_def Let_def)
qed

lemma compute_box_margin_returns:
  assumes "compute_bounding_box roi = Inr box_bound"
      and "in_range box_bound (shape vol)"
      and "py_float num = Some x" and "0 \<le> x" and "x < 2 ^ 63"
  shows "\<exists>m. compute_box vol roi spatial_ref (''box'' @ num)
                = Some (Inr (crop_to_box vol roi spatial_ref box_bound m))
             \<and> in_range (expand_box box_bound m) (shape vol)"
proof -
  obtain b00 b01 b10 b11 b20 b21 where bb: "box_bound = ((b00, b01), (b10, b11), (b20, b21))"
    by (metis prod.exhaust)
  from bounding_box_in_mask [OF assms(1)] have ord: "b00 \<le> b01" "b10 \<le> b11" "b20 \<le> b21"
    by (simp_all add: bb admissible_def)
  let ?n = "(astype_int x, astype_int x, astype_int x)"
  have "admissible box_bound ?n"
    using ord astype_int_nonneg [OF assms(4,5)] unfolding bb admissible_def by simp
  with shrink_loop_halving [OF assms(2), of ?n] obtain m where
    m: "shrink_loop box_bound (shape vol) ?n = Some m"
    and r: "in_range (expand_box box_bound m) (shape vol)" by blast
  from compute_box_number [OF assms(1,3), of vol spatial_ref] m
  have "compute_box vol roi spatial_ref (''box'' @ num)
          = Some (Inr (crop_to_box vol roi spatial_ref box_bound m))"
    by simp
  with r show ?thesis by blast
qed

subsection \<open>The reference of the cropped box\<close>

lemma compute_box_is_crop:
  assumes "str_in ''box'' box_string"
      and "compute_box vol roi spatial_ref box_string = Some (Inr res)"
  shows "\<exists>box_bound n_v. compute_bounding_box roi = Inr box_bound
           \<and> res = crop_to_box vol roi spatial_ref box_bound n_v"
  using assms
  by (auto simp: compute_box_def split: sum.splits if_splits option.splits) blast+

lemma new_reference_spacing:
  "PixelExtentInWorldX (new_reference R bb) = PixelExtentInWorldX R
   \<and> PixelExtentInWorldY (new_reference R bb) = PixelExtentInWorldY R
   \<and> PixelExtentInWorldZ (new_reference R bb) = PixelExtentInWorldZ R"
  by (simp add: new_reference_def imref3d_init_def Let_def split: prod.splits)

lemma new_reference_limits:
  "fst (XWorldLimits (new_reference R ((b00, b01), (b10, b11), (b20, b21))))
     = fst (intrinsicToWorld R (of_int b00) (of_int b10) (of_int b20)) - PixelExtentInWorldX R / 2
   \<and> fst (YWorldLimits (new_reference R ((b00, b01), (b10, b11), (b20, b21))))
     = fst (snd (intrinsicToWorld R (of_int b00) (of_int b10) (of_int b20))) - PixelExtentInWorldY R / 2
   \<and> fst (ZWorldLimits (new_reference R ((b00, b01), (b10, b11), (b20, b21))))
     = snd (snd (intrinsicToWorld R (of_int b00) (of_int b10) (of_int b20))) - PixelExtentInWorldZ R / 2"
  by (simp add: new_reference_def imref3d_init_def Let_def shift_limits_def intrinsicToWorld_def
      box_size_def split: prod.splits)

lemma new_reference_world:
  "intrinsicToWorld (new_reference R ((b00, b01), (b10, b11), (b20, b21)))
       (i - of_int b00) (j - of_int b10) (k - of_int b20)
     = intrinsicToWorld R i j k"
  using new_reference_limits [of R b00 b01 b10 b11 b20 b21]
    new_reference_spacing [of R "((b00, b01), (b10, b11), (b20, b21))"]
  by (simp add: intrinsicToWorld_def algebra_simps)

lemma crop_elems:
  assumes "in_range ((b00, b01), (b10, b11), (b20, b21)) (shape arr)"
  shows "elems (crop arr ((b00, b01), (b10, b11), (b20, b21))) i j k
           = elems arr (nat b00 + i) (nat b10 + j) (nat b20 + k)"
proof -
  obtain n0 n1 n2 where sh: "shape arr = (n0, n1, n2)" by (metis prod.exhaust)
  from assms sh have "slice_bound n0 b00 = nat b00" "slice_bound n1 b10 = nat b10"
    "slice_bound n2 b20 = nat b20"
    by (auto simp: in_range_def slice_bound_def)
  with sh show ?thesis by (simp add: crop_def py_slice_def)
qed

text \<open>
  C2: on a box string the two arrays are sliced with the same box, whose lower corner
  \<open>(b00, b10, b20)\<close> becomes the voxel \<open>(0, 0, 0)\<close>. The new reference inherits the
  spacing, its lower world limit is the world coordinate of the lower corner of the box
  less half a voxel, the border of the first voxel, and the voxel of the old index
  \<open>(i, j, k)\<close>, whose new index is \<open>(i - b00, j - b10, k - b20)\<close>, has under the new
  reference the world coordinate it had under the old one. The coordinates are exact
  reals: the rounding of the floating-point sums is not modelled.
\<close>

theorem crop_keeps_world:
  assumes "str_in ''box'' box_string"
      and "compute_box vol roi spatial_ref box_string = Some (Inr (vol', roi', R'))"
  shows "\<exists>b00 b01 b10 b11 b20 b21.
           vol' = crop vol ((b00, b01), (b10, b11), (b20, b21))
         \<and> roi' = crop roi ((b00, b01), (b10, b11), (b20, b21))
         \<and> (in_range ((b00, b01), (b10, b11), (b20, b21)) (shape vol) \<longrightarrow>
              (\<forall>i j k. elems vol' i j k = elems vol (nat b00 + i) (nat b10 + j) (nat b20 + k)))
         \<and> PixelExtentInWorldX R' = PixelExtentInWorldX spatial_ref
         \<and> PixelExtentInWorldY R' = PixelExtentInWorldY spatial_ref
         \<and> PixelExtentInWorldZ R' = PixelExtentInWorldZ spatial_ref
         \<and> fst (XWorldLimits R')
             = fst (intrinsicToWorld spatial_ref (of_int b00) (of_int b10) (of_int b20))
               - PixelExtentInWorldX spatial_ref / 2
         \<and> fst (YWorldLimits R')
             = fst (snd (intrinsicToWorld spatial_ref (of_int b00) (of_int b10) (of_int b20)))
               - PixelExtentInWorldY spatial_ref / 2
         \<and> fst (ZWorldLimits R')
             = snd (snd (intrinsicToWorld spatial_ref (of_int b00) (of_int b10) (of_int b20)))
               - PixelExtentInWorldZ spatial_ref / 2
         \<and> intrinsicToWorld R' 0 0 0
             = intrinsicToWorld spatial_ref (of_int b00) (of_int b10) (of_int b20)
         \<and> (\<forall>i j k. intrinsicToWorld R' (i - of_int b00) (j - of_int b10) (k - of_int b20)
               = intrinsicToWorld spatial_ref i j k)"
proof -
  from compute_box_is_crop [OF assms] obtain box_bound n_v where
    res: "(vol', roi', R') = crop_to_box vol roi spatial_ref box_bound n_v" by blast
  obtain b00 b01 b10 b11 b20 b21 where
    bb: "expand_box box_bound n_v = ((b00, b01), (b10, b11), (b20, b21))"
    by (metis prod.exhaust)
  from res bb have v: "vol' = crop vol ((b00, b01), (b10, b11), (b20, b21))"
    and r: "roi' = crop roi ((b00, b01), (b10, b11), (b20, b21))"
    and R: "R' = new_reference spatial_ref ((b00, b01), (b10, b11), (b20, b21))"
    by (simp_all add: crop_to_box_def Let_def)
  have corner: "intrinsicToWorld R' 0 0 0
      = intrinsicToWorld spatial_ref (of_int b00) (of_int b10) (of_int b20)"
    using new_reference_world [of spatial_ref b00 b01 b10 b11 b20 b21
        "of_int b00" "of_int b10" "of_int b20"]
    by (simp add: R)
  show ?thesis
    apply (rule exI [of _ b00], rule exI [of _ b01], rule exI [of _ b10])
    apply (rule exI [of _ b11], rule exI [of _ b20], rule exI [of _ b21])
    using v r R corner
      new_reference_spacing [of spatial_ref "((b00, b01), (b10, b11), (b20, b21))"]
      new_reference_limits [of spatial_ref b00 b01 b10 b11 b20 b21]
    by (simp add: crop_elems new_reference_world)
qed

lemma cb_box:
  "compute_box cb_vol cb_roi cb_ref ''box''
     = Some (Inr (crop cb_vol ((2, 3), (2, 3), (2, 3)), crop cb_roi ((2, 3), (2, 3), (2, 3)),
                  new_reference cb_ref ((2, 3), (2, 3), (2, 3))))"
  using cb_bbox by (simp add: compute_box_def str_in_def crop_to_box_def expand_box_zero Let_def)

text \<open>
  On the tight crop of the 6 x 6 x 6 volume the voxel (2, 2, 2) is the voxel (0, 0, 0) of
  the cropped volume, and its world coordinate is (5/2, 5/2, 15) under both references.
\<close>

lemma cb_box_world:
  "intrinsicToWorld cb_ref 2 2 2 = (5 / 2, 5 / 2, 15)
   \<and> intrinsicToWorld (new_reference cb_ref ((2, 3), (2, 3), (2, 3))) 0 0 0 = (5 / 2, 5 / 2, 15)
   \<and> XWorldLimits (new_reference cb_ref ((2, 3), (2, 3), (2, 3))) = (2, 4)
   \<and> ZWorldLimits (new_reference cb_ref ((2, 3), (2, 3), (2, 3))) = (14, 18)
   \<and> elems (crop cb_vol ((2, 3), (2, 3), (2, 3))) 0 0 0 = elems cb_vol 2 2 2"
  by code_simp

theorem crop_keeps_world_witness:
  "str_in ''box'' ''box''
   \<and> compute_box cb_vol cb_roi cb_ref ''box''
       = Some (Inr (crop cb_vol ((2, 3), (2, 3), (2, 3)), crop cb_roi ((2, 3), (2, 3), (2, 3)),
                    new_reference cb_ref ((2, 3), (2, 3), (2, 3))))
   \<and> (\<exists>b00 b01 b10 b11 b20 b21.
          crop cb_vol ((2, 3), (2, 3), (2, 3)) = crop cb_vol ((b00, b01), (b10, b11), (b20, b21))
        \<and> PixelExtentInWorldZ (new_reference cb_ref ((2, 3), (2, 3), (2, 3)))
            = PixelExtentInWorldZ cb_ref
        \<and> (\<forall>i j k. intrinsicToWorld (new_reference cb_ref ((2, 3), (2, 3), (2, 3)))
                      (i - of_int b00) (j - of_int b10) (k - of_int b20)
               = intrinsicToWorld cb_ref i j k))"
proof -
  have a: "str_in ''box'' ''box''" by (simp add: str_in_def)
  from crop_keeps_world [OF a cb_box] a cb_box show ?thesis by blast
qed

section \<open>Properties of get\_polygon\_mask\<close>

subsection \<open>The mode and the rows of a contour\<close>

lemma select_map: "select (map P xs) (map f xs) = map f (filter P xs)"
  by (induction xs) (auto simp: select_def)

lemma foldl_best:
  fixes cnt :: "'a::linorder \<Rightarrow> nat"
  assumes "sorted (ps @ us)" and "best \<in> set ps" and "\<forall>x\<in>set ps. cnt x \<le> cnt best"
      and "\<forall>x\<in>set ps. cnt x = cnt best \<longrightarrow> best \<le> x"
  shows "foldl (\<lambda>b v. if cnt b < cnt v then v else b) best us \<in> set (ps @ us)
       \<and> (\<forall>x\<in>set (ps @ us). cnt x \<le> cnt (foldl (\<lambda>b v. if cnt b < cnt v then v else b) best us))
       \<and> (\<forall>x\<in>set (ps @ us). cnt x = cnt (foldl (\<lambda>b v. if cnt b < cnt v then v else b) best us)
             \<longrightarrow> foldl (\<lambda>b v. if cnt b < cnt v then v else b) best us \<le> x)"
  using assms
proof (induction us arbitrary: ps best)
  case Nil
  then show ?case by simp
next
  case (Cons v us)
  let ?b = "if cnt best < cnt v then v else best"
  from Cons.prems(1) have le: "\<forall>x\<in>set ps. x \<le> v" by (auto simp: sorted_append)
  have 1: "sorted ((ps @ [v]) @ us)" using Cons.prems(1) by simp
  have 2: "?b \<in> set (ps @ [v])" using Cons.prems(2) by simp
  have 3: "\<forall>x\<in>set (ps @ [v]). cnt x \<le> cnt ?b" using Cons.prems(3) by auto
  have 4: "\<forall>x\<in>set (ps @ [v]). cnt x = cnt ?b \<longrightarrow> ?b \<le> x"
    using Cons.prems(3,4,2) le by auto
  from Cons.IH [OF 1 2 3 4] show ?case by simp
qed

lemma mode_props:
  assumes "mode xs = Some m"
  shows "m \<in> set xs \<and> (\<forall>x\<in>set xs. count_list xs x \<le> count_list xs m)
       \<and> (\<forall>x\<in>set xs. count_list xs x = count_list xs m \<longrightarrow> m \<le> x)"
proof -
  from assms obtain u us where us: "sort (remdups xs) = u # us"
    and m: "m = foldl (\<lambda>b v. if count_list xs b < count_list xs v then v else b) u us"
    by (auto simp: mode_def split: list.splits)
  have "sorted (sort (remdups xs))" by simp
  with us have srt: "sorted ([u] @ us)" by simp
  have "set (sort (remdups xs)) = set xs" by simp
  with us have st: "set ([u] @ us) = set xs" by simp
  have "m \<in> set ([u] @ us) \<and> (\<forall>x\<in>set ([u] @ us). count_list xs x \<le> count_list xs m)
       \<and> (\<forall>x\<in>set ([u] @ us). count_list xs x = count_list xs m \<longrightarrow> m \<le> x)"
    unfolding m by (rule foldl_best [OF srt]) simp_all
  then show ?thesis unfolding st .
qed

lemma mode_Some: "xs \<noteq> [] \<Longrightarrow> \<exists>m. mode xs = Some m"
proof -
  assume "xs \<noteq> []"
  then have "set (sort (remdups xs)) \<noteq> {}" by simp
  then have "sort (remdups xs) \<noteq> []" by (metis set_empty)
  then show ?thesis by (auto simp: mode_def split: list.splits)
qed

lemma selected_slices:
  "select (contour_ind roi_xyz cc) (rounded_slices R roi_xyz c)
     = map (\<lambda>row. np_round (column c (case row of (x, y, z, i) \<Rightarrow> worldToIntrinsic R x y z)))
         (filter (\<lambda>row. contour_id row = cc) roi_xyz)"
proof -
  have "rounded_slices R roi_xyz c
      = map (\<lambda>row. np_round (column c (case row of (x, y, z, i) \<Rightarrow> worldToIntrinsic R x y z)))
          roi_xyz"
    by (simp add: rounded_slices_def intrinsic_points_def comp_def)
  then show ?thesis by (simp add: contour_ind_def select_map)
qed

lemma select_slice_exists:
  assumes "cc \<in> set (closed_contours roi_xyz)"
  shows "\<exists>s. select_slice roi_xyz (rounded_slices R roi_xyz c) cc = Some s"
proof -
  from assms have "filter (\<lambda>row. contour_id row = cc) roi_xyz \<noteq> []"
    by (auto simp: closed_contours_def filter_empty_conv)
  then have "select (contour_ind roi_xyz cc) (rounded_slices R roi_xyz c) \<noteq> []"
    by (simp add: selected_slices)
  from mode_Some [OF this] show ?thesis by (simp add: select_slice_def)
qed

subsection \<open>The mask\<close>

lemma broadcast_index_id: "i < n \<Longrightarrow> broadcast_index n i = i"
  by (auto simp: broadcast_index_def)

lemma contour_step_plane:
  assumes "shape m = (n0, n1, n2)" and "select_slice roi_xyz K cc = Some s"
      and "axis_index n2 s = Inr k"
  shows "\<exists>m'. contour_step roi_xyz points K a b (fst (meshgrid n0 n1)) (snd (meshgrid n0 n1)) cc m
                = Inr m'
           \<and> shape m' = (n0, n1, n2)
           \<and> (\<forall>i<n0. \<forall>j<n1. \<forall>k'. elems m' i j k' =
                 (elems m i j k' \<or>
                  (k' = k \<and> point_in_polygon
                              (select (contour_ind roi_xyz cc) (map (column a) points))
                              (select (contour_ind roi_xyz cc) (map (column b) points))
                              (real i) (real j))))"
  using assms
  by (auto simp: contour_step_def Let_def get_plane_def logical_or_def set_plane_def
      inpolygon_def meshgrid_def broadcast_dim_def broadcast_index_id)

lemma for_each_contours:
  assumes "shape m = (n0, n1, n2)"
      and "\<forall>cc\<in>set ccs. \<exists>s k. select_slice roi_xyz K cc = Some s \<and> axis_index n2 s = Inr k"
  shows "\<exists>m'. for_each (contour_step roi_xyz points K a b (fst (meshgrid n0 n1)) (snd (meshgrid n0 n1)))
                 ccs m = Inr m'
           \<and> shape m' = (n0, n1, n2)
           \<and> (\<forall>i<n0. \<forall>j<n1. \<forall>k'. elems m' i j k' =
                 (elems m i j k' \<or>
                  (\<exists>cc\<in>set ccs. \<exists>s. select_slice roi_xyz K cc = Some s
                      \<and> axis_index n2 s = Inr k'
                      \<and> point_in_polygon
                              (select (contour_ind roi_xyz cc) (map (column a) points))
                              (select (contour_ind roi_xyz cc) (map (column b) points))
                              (real i) (real j))))"
  using assms
proof (induction ccs arbitrary: m)
  case Nil
  then show ?case by simp
next
  case (Cons cc ccs)
  from Cons.prems(2) obtain s k where s: "select_slice roi_xyz K cc = Some s"
    and k: "axis_index n2 s = Inr k" by auto
  from contour_step_plane [OF Cons.prems(1) s k, of points a b] obtain m1 where
    st: "contour_step roi_xyz points K a b (fst (meshgrid n0 n1)) (snd (meshgrid n0 n1)) cc m = Inr m1"
    and sh: "shape m1 = (n0, n1, n2)"
    and el: "\<forall>i<n0. \<forall>j<n1. \<forall>k'. elems m1 i j k' =
                 (elems m i j k' \<or>
                  (k' = k \<and> point_in_polygon
                              (select (contour_ind roi_xyz cc) (map (column a) points))
                              (select (contour_ind roi_xyz cc) (map (column b) points))
                              (real i) (real j)))"
    by blast
  from Cons.prems(2) have rest: "\<forall>cc\<in>set ccs. \<exists>s k. select_slice roi_xyz K cc = Some s
      \<and> axis_index n2 s = Inr k" by simp
  from Cons.IH [OF sh rest] obtain m' where
    fe: "for_each (contour_step roi_xyz points K a b (fst (meshgrid n0 n1)) (snd (meshgrid n0 n1)))
           ccs m1 = Inr m'"
    and sh': "shape m' = (n0, n1, n2)"
    and el': "\<forall>i<n0. \<forall>j<n1. \<forall>k'. elems m' i j k' =
                 (elems m1 i j k' \<or>
                  (\<exists>cc\<in>set ccs. \<exists>s. select_slice roi_xyz K cc = Some s
                      \<and> axis_index n2 s = Inr k'
                      \<and> point_in_polygon
                              (select (contour_ind roi_xyz cc) (map (column a) points))
                              (select (contour_ind roi_xyz cc) (map (column b) points))
                              (real i) (real j)))"
    by blast
  have "for_each (contour_step roi_xyz points K a b (fst (meshgrid n0 n1)) (snd (meshgrid n0 n1)))
          (cc # ccs) m = Inr m'"
    using st fe by simp
  moreover have "\<forall>i<n0. \<forall>j<n1. \<forall>k'. elems m' i j k' =
                 (elems m i j k' \<or>
                  (\<exists>cc\<in>set (cc # ccs). \<exists>s. select_slice roi_xyz K cc = Some s
                      \<and> axis_index n2 s = Inr k'
                      \<and> point_in_polygon
                              (select (contour_ind roi_xyz cc) (map (column a) points))
                              (select (contour_ind roi_xyz cc) (map (column b) points))
                              (real i) (real j)))"
    using el el' s k by auto
  ultimately show ?case using sh' by blast
qed

lemma axis_index_Inr:
  "- int n \<le> s \<Longrightarrow> s < int n \<Longrightarrow> \<exists>k. axis_index n s = Inr k"
  by (auto simp: axis_index_def)

lemma get_polygon_mask_planes:
  assumes "orientation_axes orientation = Inr (a, b, c)"
      and "ImageSize R = (int n0, int n1, int n2)"
      and "\<forall>cc\<in>set (closed_contours roi_xyz). \<forall>s.
              select_slice roi_xyz (rounded_slices R roi_xyz c) cc = Some s
                \<longrightarrow> - int n2 \<le> s \<and> s < int n2"
  shows "\<exists>m. get_polygon_mask roi_xyz R orientation = Inr m
           \<and> shape m = (n0, n1, n2)
           \<and> (\<forall>i<n0. \<forall>j<n1. \<forall>k. elems m i j k =
                 (\<exists>cc\<in>set (closed_contours roi_xyz). \<exists>s.
                      select_slice roi_xyz (rounded_slices R roi_xyz c) cc = Some s
                      \<and> axis_index n2 s = Inr k
                      \<and> point_in_polygon
                          (select (contour_ind roi_xyz cc)
                             (map (column a) (intrinsic_points R roi_xyz)))
                          (select (contour_ind roi_xyz cc)
                             (map (column b) (intrinsic_points R roi_xyz)))
                          (real i) (real j)))"
proof -
  let ?z = "\<lparr>shape = (n0, n1, n2), elems = (\<lambda>i j k. False)\<rparr>"
  have z: "zeros (int n0, int n1, int n2) = Inr ?z" by (simp add: zeros_def)
  have ok: "\<forall>cc\<in>set (closed_contours roi_xyz). \<exists>s k.
      select_slice roi_xyz (rounded_slices R roi_xyz c) cc = Some s \<and> axis_index n2 s = Inr k"
  proof
    fix cc assume cc: "cc \<in> set (closed_contours roi_xyz)"
    from select_slice_exists [OF cc] obtain s where
      s: "select_slice roi_xyz (rounded_slices R roi_xyz c) cc = Some s" by blast
    with assms(3) cc have "- int n2 \<le> s" "s < int n2" by auto
    from axis_index_Inr [OF this] s
    show "\<exists>s k. select_slice roi_xyz (rounded_slices R roi_xyz c) cc = Some s
        \<and> axis_index n2 s = Inr k" by blast
  qed
  have sh: "shape ?z = (n0, n1, n2)" by simp
  have gp: "get_polygon_mask roi_xyz R orientation =
      for_each (contour_step roi_xyz (intrinsic_points R roi_xyz) (rounded_slices R roi_xyz c) a b
                  (fst (meshgrid n0 n1)) (snd (meshgrid n0 n1)))
        (closed_contours roi_xyz) ?z"
    by (simp add: get_polygon_mask_def z assms(1,2) Let_def case_prod_beta)
  from for_each_contours [OF sh ok, of "intrinsic_points R roi_xyz" a b] gp
  show ?thesis by simp
qed

text \<open>
  C8: an orientation that is none of \<open>Axial\<close>, \<open>Sagittal\<close> and \<open>Coronal\<close> makes
  \<open>get_polygon_mask\<close> raise, whatever the contours are: no contour is rasterized and no
  mask is returned.
\<close>

theorem invalid_orientation_fails:
  assumes "orientation \<notin> {''Axial'', ''Sagittal'', ''Coronal''}"
  shows "get_polygon_mask roi_xyz spatial_ref orientation = Inl ValueError"
  using assms
  by (simp add: get_polygon_mask_def orientation_axes_def zeros_def Let_def split: prod.splits)

theorem invalid_orientation_fails_witness:
  "''axial'' \<notin> {''Axial'', ''Sagittal'', ''Coronal''}
   \<and> get_polygon_mask sag_roi (unit_ref (2, 2, 2)) ''axial'' = Inl ValueError"
proof -
  have a: "''axial'' \<notin> {''Axial'', ''Sagittal'', ''Coronal''}" by simp
  from invalid_orientation_fails [OF a, of sag_roi "unit_ref (2, 2, 2)"] a show ?thesis by simp
qed

text \<open>
  C1, as the code has it: for every valid orientation and contours whose slices are
  indices of the third axis, the mask is the union of the planes of the contours, each
  written at its slice along the third axis of the array, \<open>roi_mask[:, :, s]\<close>, whatever
  the orientation is. The grid of every plane spans the first two axes of the image
  size, and \<open>mask[i, j, s]\<close> answers for the point \<open>(i, j)\<close> of the polygon. The
  orientation only selects the columns \<open>a\<close>, \<open>b\<close> of the vertices and the column \<open>c\<close> of
  the slice.
\<close>

theorem mask_written_on_third_axis:
  assumes "orientation_axes orientation = Inr (a, b, c)"
      and "ImageSize R = (int n0, int n1, int n2)"
      and "\<forall>cc\<in>set (closed_contours roi_xyz). \<forall>s.
              select_slice roi_xyz (rounded_slices R roi_xyz c) cc = Some s
                \<longrightarrow> - int n2 \<le> s \<and> s < int n2"
  shows "\<exists>m. get_polygon_mask roi_xyz R orientation = Inr m
           \<and> shape m = (n0, n1, n2)
           \<and> (\<forall>i<n0. \<forall>j<n1. \<forall>k. elems m i j k =
                 (\<exists>cc\<in>set (closed_contours roi_xyz). \<exists>s.
                      select_slice roi_xyz (rounded_slices R roi_xyz c) cc = Some s
                      \<and> axis_index n2 s = Inr k
                      \<and> point_in_polygon
                          (select (contour_ind roi_xyz cc)
                             (map (column a) (intrinsic_points R roi_xyz)))
                          (select (contour_ind roi_xyz cc)
                             (map (column b) (intrinsic_points R roi_xyz)))
                          (real i) (real j)))"
  using assms by (rule get_polygon_mask_planes)

lemma sag_axes: "orientation_axes ''Sagittal'' = Inr (1, 2, 0)"
  by (simp add: orientation_axes_def)

lemma sag_size: "ImageSize (unit_ref (2, 3, 2)) = (int 2, int 3, int 2)"
  by (simp add: unit_ref_def)

lemma sag_contours: "closed_contours sag_roi = [0]"
  by code_simp

lemma sag_slice: "select_slice sag_roi (rounded_slices (unit_ref (2, 3, 2)) sag_roi 0) 0 = Some 1"
  by code_simp

lemma sag_inside:
  "point_in_polygon
     (select (contour_ind sag_roi 0) (map (column 1) (intrinsic_points (unit_ref (2, 3, 2)) sag_roi)))
     (select (contour_ind sag_roi 0) (map (column 2) (intrinsic_points (unit_ref (2, 3, 2)) sag_roi)))
     0 0"
  by code_simp

lemma axis_index_2_1: "axis_index 2 1 = Inr 1"
  by code_simp

theorem mask_written_on_third_axis_witness:
  "orientation_axes ''Sagittal'' = Inr (1, 2, 0)
   \<and> ImageSize (unit_ref (2, 3, 2)) = (2, 3, 2)
   \<and> (\<exists>m. get_polygon_mask sag_roi (unit_ref (2, 3, 2)) ''Sagittal'' = Inr m
          \<and> shape m = (2, 3, 2) \<and> elems m 0 0 1)"
proof -
  have h3: "\<forall>cc\<in>set (closed_contours sag_roi). \<forall>s.
      select_slice sag_roi (rounded_slices (unit_ref (2, 3, 2)) sag_roi 0) cc = Some s
        \<longrightarrow> - int 2 \<le> s \<and> s < int 2"
    by (simp add: sag_contours sag_slice)
  from mask_written_on_third_axis [OF sag_axes sag_size h3] obtain m where
    m: "get_polygon_mask sag_roi (unit_ref (2, 3, 2)) ''Sagittal'' = Inr m"
    and sh: "shape m = (2, 3, 2)"
    and el: "\<forall>i<2. \<forall>j<3. \<forall>k. elems m i j k =
                 (\<exists>cc\<in>set (closed_contours sag_roi). \<exists>s.
                      select_slice sag_roi (rounded_slices (unit_ref (2, 3, 2)) sag_roi 0) cc = Some s
                      \<and> axis_index 2 s = Inr k
                      \<and> point_in_polygon
                          (select (contour_ind sag_roi cc)
                             (map (column 1) (intrinsic_points (unit_ref (2, 3, 2)) sag_roi)))
                          (select (contour_ind sag_roi cc)
                             (map (column 2) (intrinsic_points (unit_ref (2, 3, 2)) sag_roi)))
                          (real i) (real j))"
    by blast
  from el have "elems m 0 0 1"
    using sag_contours sag_slice sag_inside axis_index_2_1 by simp
  with m sh sag_axes sag_size show ?thesis by simp
qed

text \<open>
  On an image of 2 x 3 x 2 voxels an axial contour at Z = 0 whose polygon holds the point
  (X, Y) = (1, 2) and no other point of the grid sets \<open>mask[1, 2, 0]\<close> alone: the first
  index of the mask runs along the first coordinate of the polygon.
\<close>

lemma axial_index_order:
  "(case get_polygon_mask tri_roi (unit_ref (2, 3, 2)) ''Axial'' of
      Inr m \<Rightarrow>
        shape m = (2, 3, 2)
        \<and> list_all (\<lambda>i. list_all (\<lambda>j. list_all (\<lambda>k.
              elems m i j k = (i = 1 \<and> j = 2 \<and> k = 0)) [0..<2]) [0..<3]) [0..<2]
    | Inl e \<Rightarrow> False)"
  by code_simp

text \<open>
  The claim C1 fails on a sagittal contour at X = 1 whose polygon holds the point
  (Y, Z) = (0, 0), on an image of 2 x 3 x 2 voxels: the claim has the voxel
  \<open>mask[1, 0, 0]\<close> set, the code leaves it unset and sets \<open>mask[0, 0, 1]\<close>, in a plane
  that spans the X and Y extents.
\<close>

theorem slice_axis_counterexample:
  "(case get_polygon_mask sag_roi (unit_ref (2, 3, 2)) ''Sagittal'' of
      Inr m \<Rightarrow>
        select_slice sag_roi (rounded_slices (unit_ref (2, 3, 2)) sag_roi 0) 0 = Some 1
        \<and> point_in_polygon [- 1 / 2, 1 / 2, 0] [- 1 / 2, - 1 / 2, 1 / 2] 0 0
        \<and> shape m = (2, 3, 2)
        \<and> \<not> elems m 1 0 0 \<and> elems m 0 0 1
    | Inl e \<Rightarrow> False)"
  by code_simp

text \<open>
  C10: when the slice coordinates of all rows round to \<open>-k\<close> with \<open>0 < k \<le> imageSize[2]\<close>,
  \<open>get_polygon_mask\<close> returns a mask, and the planes of the contours are in the slice
  \<open>imageSize[2] - k\<close> of the third axis and nowhere else.
\<close>

theorem negative_slice_wraps:
  assumes "orientation_axes orientation = Inr (a, b, c)"
      and "ImageSize R = (int n0, int n1, int n2)"
      and "roi_xyz \<noteq> []"
      and "\<forall>row\<in>set roi_xyz.
             np_round (column c (case row of (x, y, z, i) \<Rightarrow> worldToIntrinsic R x y z)) = - int k"
      and "0 < k" and "k \<le> n2"
  shows "\<exists>m. get_polygon_mask roi_xyz R orientation = Inr m
           \<and> shape m = (n0, n1, n2)
           \<and> (\<forall>i<n0. \<forall>j<n1. \<forall>k'. elems m i j k' =
                 (k' = n2 - k \<and>
                  (\<exists>cc\<in>set (closed_contours roi_xyz).
                      point_in_polygon
                          (select (contour_ind roi_xyz cc)
                             (map (column a) (intrinsic_points R roi_xyz)))
                          (select (contour_ind roi_xyz cc)
                             (map (column b) (intrinsic_points R roi_xyz)))
                          (real i) (real j))))"
proof -
  have sl: "select_slice roi_xyz (rounded_slices R roi_xyz c) cc = Some s \<Longrightarrow> s = - int k"
    for cc s
  proof -
    assume "select_slice roi_xyz (rounded_slices R roi_xyz c) cc = Some s"
    then have "mode (select (contour_ind roi_xyz cc) (rounded_slices R roi_xyz c)) = Some s"
      by (simp add: select_slice_def)
    from mode_props [OF this]
    have "s \<in> set (select (contour_ind roi_xyz cc) (rounded_slices R roi_xyz c))" by simp
    with assms(4) show "s = - int k" by (auto simp: selected_slices)
  qed
  have ai: "axis_index n2 (- int k) = Inr (n2 - k)"
    using assms(5,6) by (auto simp: axis_index_def nat_diff_distrib)
  have h3: "\<forall>cc\<in>set (closed_contours roi_xyz). \<forall>s.
              select_slice roi_xyz (rounded_slices R roi_xyz c) cc = Some s
                \<longrightarrow> - int n2 \<le> s \<and> s < int n2"
  proof (intro ballI allI impI)
    fix cc s
    assume "select_slice roi_xyz (rounded_slices R roi_xyz c) cc = Some s"
    from sl [OF this] assms(5,6) show "- int n2 \<le> s \<and> s < int n2" by simp
  qed
  from get_polygon_mask_planes [OF assms(1,2) h3] obtain m where
    m: "get_polygon_mask roi_xyz R orientation = Inr m"
    and sh: "shape m = (n0, n1, n2)"
    and el: "\<forall>i<n0. \<forall>j<n1. \<forall>k. elems m i j k =
                 (\<exists>cc\<in>set (closed_contours roi_xyz). \<exists>s.
                      select_slice roi_xyz (rounded_slices R roi_xyz c) cc = Some s
                      \<and> axis_index n2 s = Inr k
                      \<and> point_in_polygon
                          (select (contour_ind roi_xyz cc)
                             (map (column a) (intrinsic_points R roi_xyz)))
                          (select (contour_ind roi_xyz cc)
                             (map (column b) (intrinsic_points R roi_xyz)))
                          (real i) (real j))"
    by blast
  have "elems m i j k' =
                 (k' = n2 - k \<and>
                  (\<exists>cc\<in>set (closed_contours roi_xyz).
                      point_in_polygon
                          (select (contour_ind roi_xyz cc)
                             (map (column a) (intrinsic_points R roi_xyz)))
                          (select (contour_ind roi_xyz cc)
                             (map (column b) (intrinsic_points R roi_xyz)))
                          (real i) (real j)))" if "i < n0" "j < n1" for i j k'
  proof -
    from el that have "elems m i j k' =
                 (\<exists>cc\<in>set (closed_contours roi_xyz). \<exists>s.
                      select_slice roi_xyz (rounded_slices R roi_xyz c) cc = Some s
                      \<and> axis_index n2 s = Inr k'
                      \<and> point_in_polygon
                          (select (contour_ind roi_xyz cc)
                             (map (column a) (intrinsic_points R roi_xyz)))
                          (select (contour_ind roi_xyz cc)
                             (map (column b) (intrinsic_points R roi_xyz)))
                          (real i) (real j))" by simp
    also have "\<dots> = (k' = n2 - k \<and>
                  (\<exists>cc\<in>set (closed_contours roi_xyz).
                      point_in_polygon
                          (select (contour_ind roi_xyz cc)
                             (map (column a) (intrinsic_points R roi_xyz)))
                          (select (contour_ind roi_xyz cc)
                             (map (column b) (intrinsic_points R roi_xyz)))
                          (real i) (real j)))"
      using sl ai select_slice_exists [of _ roi_xyz R c] by (metis Inr_inject)
    finally show ?thesis .
  qed
  with m sh show ?thesis by blast
qed

lemma ax_axes: "orientation_axes ''Axial'' = Inr (0, 1, 2)"
  by (simp add: orientation_axes_def)

lemma neg_contours: "closed_contours neg_roi = [0]"
  by code_simp

lemma neg_rounds:
  "\<forall>row\<in>set neg_roi.
      np_round (column 2 (case row of (x, y, z, i) \<Rightarrow> worldToIntrinsic (unit_ref (2, 3, 2)) x y z))
        = - int 1"
  by code_simp

lemma neg_inside:
  "point_in_polygon
     (select (contour_ind neg_roi 0) (map (column 0) (intrinsic_points (unit_ref (2, 3, 2)) neg_roi)))
     (select (contour_ind neg_roi 0) (map (column 1) (intrinsic_points (unit_ref (2, 3, 2)) neg_roi)))
     0 0"
  by code_simp

theorem negative_slice_wraps_witness:
  "orientation_axes ''Axial'' = Inr (0, 1, 2) \<and> ImageSize (unit_ref (2, 3, 2)) = (2, 3, 2)
   \<and> neg_roi \<noteq> []
   \<and> (\<exists>m. get_polygon_mask neg_roi (unit_ref (2, 3, 2)) ''Axial'' = Inr m
          \<and> shape m = (2, 3, 2) \<and> elems m 0 0 1 \<and> \<not> elems m 0 0 0)"
proof -
  have ne: "neg_roi \<noteq> []" by (simp add: neg_roi_def)
  have k: "0 < (1::nat)" "(1::nat) \<le> 2" by simp_all
  from negative_slice_wraps [OF ax_axes sag_size ne neg_rounds k] obtain m where
    m: "get_polygon_mask neg_roi (unit_ref (2, 3, 2)) ''Axial'' = Inr m"
    and sh: "shape m = (2, 3, 2)"
    and el: "\<forall>i<2. \<forall>j<3. \<forall>k'. elems m i j k' =
                 (k' = 2 - 1 \<and>
                  (\<exists>cc\<in>set (closed_contours neg_roi).
                      point_in_polygon
                          (select (contour_ind neg_roi cc)
                             (map (column 0) (intrinsic_points (unit_ref (2, 3, 2)) neg_roi)))
                          (select (contour_ind neg_roi cc)
                             (map (column 1) (intrinsic_points (unit_ref (2, 3, 2)) neg_roi)))
                          (real i) (real j)))"
    by blast
  from el have "elems m 0 0 1" using neg_contours neg_inside by simp
  moreover from el have "\<not> elems m 0 0 0" by simp
  ultimately show ?thesis using m sh ax_axes sag_size ne by simp
qed






end
